theory Spec2Isabelle
  imports Main "HOL-Library.AList" "HOL-Library.Sublist"
begin

section \<open>The BPMN source graph (package bpmn)\<close>

text \<open>
  The structs of the parser's output, one record each. Go strings are byte strings and
  are modelled as \<open>string\<close>; a slice is a list; the pointer \<open>*BpmnStartEvent\<close> is an
  option (\<open>None\<close> is \<open>nil\<close>). Field names carry a prefix, since several structs share
  the names \<open>Id\<close> and \<open>Name\<close>.
\<close>

record BpmnStartEvent =
  se_Id :: string
  se_Name :: string
  se_Outgoing :: string

record BpmnTask =
  task_Id :: string
  task_Name :: string
  task_Documentation :: string
  task_Incoming :: string
  task_Outgoing :: string

record BpmnGateway =
  gw_Id :: string
  gw_Name :: string
  gw_Incoming :: string
  gw_Outgoing :: "string list"

record BpmnSignalEventDefinition =
  sig_Id :: string

record BpmnEndEvent =
  end_Id :: string
  end_Name :: string
  end_Incoming :: "string list"
  end_SignalEventDefinit :: BpmnSignalEventDefinition

record BpmnSequenceFlow =
  flow_Id :: string
  flow_SourceRef :: string
  flow_TargetRef :: string
  flow_Name :: string

record BpmnProcess =
  proc_Id :: string
  proc_Name :: string
  proc_IsExecutable :: bool
  proc_CamundaVersionTag :: string
  StartEvent :: "BpmnStartEvent option"
  ServiceTask :: "BpmnTask list"
  UserTask :: "BpmnTask list"
  ManualTask :: "BpmnTask list"
  ScriptTask :: "BpmnTask list"
  SendTask :: "BpmnTask list"
  Task :: "BpmnTask list"
  IntermediateThrowEvent :: "BpmnTask list"
  IntermediateCatchEvent :: "BpmnTask list"
  ExclusiveGateway :: "BpmnGateway list"
  InclusiveGateway :: "BpmnGateway list"
  ParallelGateway :: "BpmnGateway list"
  EndEvent :: "BpmnEndEvent list"
  SequenceFlow :: "BpmnSequenceFlow list"

record BpmnDefinitions =
  def_XMLName :: "string \<times> string"
  def_Bpmn :: string
  def_Bpmndi :: string
  def_Dc :: string
  def_Di :: string
  def_Bioc :: string
  def_Camunda :: string
  def_Id :: string
  def_TargetNamespace :: string
  def_Exporter :: string
  def_ExporterVersion :: string
  Processes :: "BpmnProcess list"

section \<open>The CACAO target graph (package cacao)\<close>

text \<open>
  A Go map is a partial function; a \<open>nil\<close> map and an empty one are both \<open>Map.empty\<close>
  (the code only tests \<open>PlaybookVariables\<close> for \<open>nil\<close> in order to allocate it). A
  \<open>*time.Time\<close> is an optional instant, an instant being a count of clock ticks.
\<close>

type_synonym Time = int

record ExternalReference =
  ref_Name :: string
  ref_Description :: string
  ref_Source :: string
  ref_URL :: string
  ref_Hash :: string
  ref_ExternalID :: string

record PlaybookVariable =
  var_Type :: string
  var_Description :: string
  var_Value :: string
  var_Constant :: bool

record Command =
  cmd_Type :: string
  cmd_Command :: string
  cmd_Description :: string

record Step =
  step_Type :: string
  step_Name :: string
  OnCompletion :: string
  Condition :: string
  OnTrue :: string
  OnFalse :: string
  Switch :: string
  Cases :: "string \<rightharpoonup> string list"
  NextSteps :: "string list"
  Commands :: "Command list"
  InArgs :: "string list"

record CacaoPlaybook =
  pb_Type :: string
  SpecVersion :: string
  pb_ID :: string
  pb_Name :: string
  pb_Description :: string
  PlaybookTypes :: "string list"
  CreatedBy :: string
  Created :: "Time option"
  Modified :: "Time option"
  Revoked :: bool
  ValidFrom :: "Time option"
  ValidUntil :: "Time option"
  DerivedFrom :: string
  Priority :: int
  Severity :: int
  Impact :: int
  Labels :: "string list"
  ExternalReferences :: "ExternalReference list"
  Markings :: "string list"
  PlaybookVariables :: "string \<rightharpoonup> PlaybookVariable"
  WorkflowStart :: string
  WorkflowException :: string
  Workflow :: "string \<rightharpoonup> Step"

text \<open>The zero values of the two structs the code builds with struct literals.\<close>

definition zeroStep :: Step where
  "zeroStep = \<lparr>step_Type = [], step_Name = [], OnCompletion = [], Condition = [],
     OnTrue = [], OnFalse = [], Switch = [], Cases = Map.empty, NextSteps = [],
     Commands = [], InArgs = []\<rparr>"

definition zeroPlaybook :: CacaoPlaybook where
  "zeroPlaybook = \<lparr>pb_Type = [], SpecVersion = [], pb_ID = [], pb_Name = [],
     pb_Description = [], PlaybookTypes = [], CreatedBy = [], Created = None,
     Modified = None, Revoked = False, ValidFrom = None, ValidUntil = None,
     DerivedFrom = [], Priority = 0, Severity = 0, Impact = 0, Labels = [],
     ExternalReferences = [], Markings = [], PlaybookVariables = Map.empty,
     WorkflowStart = [], WorkflowException = [], Workflow = Map.empty\<rparr>"

subsection \<open>Constants of cacao.go\<close>

abbreviation CACAO_SPEC_VERSION_11 :: string where "CACAO_SPEC_VERSION_11 \<equiv> ''1.1''"

abbreviation CACAO_SPEC_VERSION_20 :: string where "CACAO_SPEC_VERSION_20 \<equiv> ''2.0''"

abbreviation CACAO_STEP_TYPE_START :: string where "CACAO_STEP_TYPE_START \<equiv> ''start''"

abbreviation CACAO_STEP_TYPE_END :: string where "CACAO_STEP_TYPE_END \<equiv> ''end''"

abbreviation CACAO_STEP_TYPE_11_STEP :: string where "CACAO_STEP_TYPE_11_STEP \<equiv> ''step''"

abbreviation CACAO_STEP_TYPE_ACTION :: string where "CACAO_STEP_TYPE_ACTION \<equiv> ''action''"

abbreviation CACAO_STEP_TYPE_11_SINGLE :: string where "CACAO_STEP_TYPE_11_SINGLE \<equiv> ''single''"

abbreviation CACAO_STEP_TYPE_PARALLEL :: string where "CACAO_STEP_TYPE_PARALLEL \<equiv> ''parallel''"

abbreviation CACAO_STEP_TYPE_IF_COND :: string where "CACAO_STEP_TYPE_IF_COND \<equiv> ''if-condition''"

abbreviation CACAO_STEP_TYPE_SWITCH_COND :: string where
  "CACAO_STEP_TYPE_SWITCH_COND \<equiv> ''switch-condition''"

abbreviation CACAO_COMMAND_TYPE_MANUAL :: string where "CACAO_COMMAND_TYPE_MANUAL \<equiv> ''manual''"

abbreviation CACAO_COMMAND_TYPE_BASH :: string where "CACAO_COMMAND_TYPE_BASH \<equiv> ''bash''"

abbreviation CACAO_COMMAND_TYPE_HTTP :: string where "CACAO_COMMAND_TYPE_HTTP \<equiv> ''http-api''"

section \<open>What the conversion takes from outside the repository\<close>

text \<open>
  The library calls whose results the source does not determine are the fields of an
  environment:
  \<^item> \<open>uuidNewHash id\<close> is the text of
    \<open>uuid.NewHash(crypto.SHA256.New(), uuid.MustParse(CACAO_NAMESPACE_UUID_STRING), []byte(id), 5)\<close>,
    a function of the node id alone;
  \<^item> \<open>uuidNew n\<close> is the text of the \<open>n\<close>-th \<open>uuid.New()\<close> of one conversion (a random
    version-4 UUID), counting from 0;
  \<^item> \<open>timeNow\<close> is the reading of \<open>time.Now()\<close>;
  \<^item> \<open>strings_ToUpper\<close>, \<open>strings_ToLower\<close> are the functions of package strings (they
    work on runes, which a byte string does not show), and \<open>keepIdentRunes\<close> is
    \<open>strings.Map\<close> with the function that keeps a rune when it is a letter, a number or
    an underscore and drops it otherwise;
  \<^item> \<open>mapRange gid i m\<close> is the order in which the \<open>i\<close>-th \<open>range nextStepMap\<close> of the
    gateway \<open>gid\<close> visits the entries of the map (Go leaves it unspecified).
\<close>

record env =
  uuidNewHash :: "string \<Rightarrow> string"
  uuidNew :: "nat \<Rightarrow> string"
  timeNow :: Time
  strings_ToUpper :: "string \<Rightarrow> string"
  strings_ToLower :: "string \<Rightarrow> string"
  keepIdentRunes :: "string \<Rightarrow> string"
  mapRange :: "string \<Rightarrow> nat \<Rightarrow> (string \<times> string) list \<Rightarrow> (string \<times> string) list"

section \<open>Formatting and map access\<close>

definition digit_char :: "nat \<Rightarrow> char" where
  "digit_char d = ''0123456789'' ! d"

text \<open>\<open>%d\<close> of a non-negative int (the loop counters of the source never go below 0).\<close>

fun showNat :: "nat \<Rightarrow> string" where
  "showNat n = (if n < 10 then [digit_char n] else showNat (n div 10) @ [digit_char (n mod 10)])"

declare showNat.simps [simp del]

text \<open>\<open>fmt.Sprintf("%s--%s", kind, uuid)\<close>, \<open>fmt.Sprintf("%s:%s", id, label)\<close> and
  \<open>fmt.Sprintf("%s:%d", id, i)\<close>.\<close>

definition sprintf_id :: "string \<Rightarrow> string \<Rightarrow> string" where
  "sprintf_id kind u = kind @ ''--'' @ u"

definition sprintf_s :: "string \<Rightarrow> string \<Rightarrow> string" where
  "sprintf_s a b = a @ '':'' @ b"

definition sprintf_d :: "string \<Rightarrow> nat \<Rightarrow> string" where
  "sprintf_d a i = a @ '':'' @ showNat i"

text \<open>Reading a \<open>map[string]string\<close>: a missing key reads as the empty string.\<close>

definition lookupS :: "(string \<rightharpoonup> string) \<Rightarrow> string \<Rightarrow> string" where
  "lookupS m k = (case m k of None \<Rightarrow> [] | Some v \<Rightarrow> v)"

text \<open>\<open>strings.HasPrefix(s, p)\<close> is \<open>prefix p s\<close>; \<open>strings.TrimPrefix\<close> and
  \<open>strings.ReplaceAll(s, " ", "_")\<close>:\<close>

definition TrimPrefix :: "string \<Rightarrow> string \<Rightarrow> string" where
  "TrimPrefix s p = (if prefix p s then drop (length p) s else s)"

definition ReplaceAll_space :: "string \<Rightarrow> string" where
  "ReplaceAll_space s = map (\<lambda>c. if c = CHR '' '' then CHR ''_'' else c) s"

section \<open>The transition index (cacao.go, lines 384-399)\<close>

text \<open>
  \<open>nextStepMap\<close> is an association list with distinct keys, so that it is finite and can
  be ranged over; \<open>map_of\<close> reads it and \<open>AList.update\<close> is the assignment
  \<open>nextStepMap[k] = v\<close>. The probing loop \<open>for i := 0; true; i++\<close> is the recursion
  \<open>probe\<close>, total because the keys it tries are pairwise different and the map is finite.
\<close>

function probe :: "(string \<times> string) list \<Rightarrow> string \<Rightarrow> nat \<Rightarrow> string" where
  "probe m src i =
     (if map_of m (sprintf_d src i) = None then sprintf_d src i else probe m src (Suc i))"
  by pat_completeness auto

lemma digit_char_inj: "a < 10 \<Longrightarrow> b < 10 \<Longrightarrow> digit_char a = digit_char b \<Longrightarrow> a = b"
proof -
  assume a: "a < 10" and b: "b < 10" and e: "digit_char a = digit_char b"
  have d: "distinct ''0123456789''" by simp
  have l: "length ''0123456789'' = 10" by simp
  from e have "''0123456789'' ! a = ''0123456789'' ! b" by (simp only: digit_char_def)
  with d a b l show "a = b" by (metis nth_eq_iff_index_eq)
qed

lemma showNat_small: "n < 10 \<Longrightarrow> showNat n = [digit_char n]"
  by (subst showNat.simps) simp

lemma showNat_big: "\<not> n < 10 \<Longrightarrow> showNat n = showNat (n div 10) @ [digit_char (n mod 10)]"
  by (subst showNat.simps) simp

lemma showNat_nonempty: "showNat n \<noteq> []"
  by (cases "n < 10") (simp_all add: showNat_small showNat_big)

lemma showNat_inj: "showNat a = showNat b \<Longrightarrow> a = b"
proof (induction a arbitrary: b rule: showNat.induct)
  case (1 n)
  show ?case
  proof (cases "n < 10")
    case True
    note n = True
    show ?thesis
    proof (cases "b < 10")
      case True
      with n "1.prems" show ?thesis by (simp add: showNat_small digit_char_inj)
    next
      case False
      with n "1.prems" show ?thesis
        by (simp add: showNat_small showNat_big showNat_nonempty [THEN not_sym])
    qed
  next
    case False
    note n = False
    show ?thesis
    proof (cases "b < 10")
      case True
      with n "1.prems" show ?thesis
        by (simp add: showNat_small showNat_big showNat_nonempty)
    next
      case False
      with n "1.prems" have e: "showNat (n div 10) = showNat (b div 10)"
        and d: "digit_char (n mod 10) = digit_char (b mod 10)"
        by (simp_all add: showNat_big)
      from "1.IH" [OF n e] have q: "n div 10 = b div 10" .
      from d have r: "n mod 10 = b mod 10" by (intro digit_char_inj) simp_all
      from q r show ?thesis by (metis div_mult_mod_eq)
    qed
  qed
qed

lemma sprintf_d_inj: "sprintf_d src i = sprintf_d src j \<Longrightarrow> i = j"
  by (simp add: sprintf_d_def showNat_inj)

text \<open>The keys the loop has still to try that are in the map: their number goes down
  at every round.\<close>

definition probe_pending :: "(string \<times> string) list \<Rightarrow> string \<Rightarrow> nat \<Rightarrow> string set" where
  "probe_pending m src i = {k \<in> fst ` set m. \<exists>j. i \<le> j \<and> k = sprintf_d src j}"

lemma probe_pending_less:
  assumes "map_of m (sprintf_d src i) \<noteq> None"
  shows "card (probe_pending m src (Suc i)) < card (probe_pending m src i)"
proof (rule psubset_card_mono)
  show "finite (probe_pending m src i)" by (simp add: probe_pending_def)
  from assms have "sprintf_d src i \<in> fst ` set m" by (metis map_of_eq_None_iff)
  then have a: "sprintf_d src i \<in> probe_pending m src i" by (auto simp: probe_pending_def)
  have b: "sprintf_d src i \<notin> probe_pending m src (Suc i)"
    by (auto simp: probe_pending_def dest: sprintf_d_inj)
  have c: "probe_pending m src (Suc i) \<subseteq> probe_pending m src i"
    by (auto simp: probe_pending_def intro: Suc_leD)
  from a b c show "probe_pending m src (Suc i) \<subset> probe_pending m src i" by blast
qed

termination probe
  by (relation "measure (\<lambda>(m, src, i). card (probe_pending m src i))")
     (auto intro: probe_pending_less)

declare probe.simps [simp del]

definition nextStepMapKey :: "env \<Rightarrow> (string \<times> string) list \<Rightarrow> BpmnSequenceFlow \<Rightarrow> string" where
  "nextStepMapKey env nextStepMap sequenceFlow =
     (if flow_Name sequenceFlow \<noteq> []
      then sprintf_s (flow_SourceRef sequenceFlow) (strings_ToUpper env (flow_Name sequenceFlow))
      else probe nextStepMap (flow_SourceRef sequenceFlow) 0)"

definition addSequenceFlow ::
  "env \<Rightarrow> (string \<times> string) list \<Rightarrow> BpmnSequenceFlow \<Rightarrow> (string \<times> string) list" where
  "addSequenceFlow env nextStepMap sequenceFlow =
     AList.update (nextStepMapKey env nextStepMap sequenceFlow) (flow_TargetRef sequenceFlow)
       nextStepMap"

definition buildNextStepMap :: "env \<Rightarrow> BpmnSequenceFlow list \<Rightarrow> (string \<times> string) list" where
  "buildNextStepMap env flows = foldl (addSequenceFlow env) [] flows"

section \<open>The step-id index (cacao.go, lines 284-377)\<close>

text \<open>One loop of the source per function: the task-like categories, the end events, the
  exclusive gateways, and the parallel and inclusive gateways.\<close>

definition mapTasks ::
  "env \<Rightarrow> string \<Rightarrow> BpmnTask list \<Rightarrow> (string \<rightharpoonup> string) \<Rightarrow> (string \<rightharpoonup> string)" where
  "mapTasks env kind tasks stepMap =
     foldl (\<lambda>m task. m(task_Id task \<mapsto> sprintf_id kind (uuidNewHash env (task_Id task))))
       stepMap tasks"

definition mapEndEvents ::
  "env \<Rightarrow> string \<Rightarrow> BpmnEndEvent list \<Rightarrow> (string \<rightharpoonup> string) \<Rightarrow> (string \<rightharpoonup> string)" where
  "mapEndEvents env kind ends stepMap =
     foldl (\<lambda>m endEvent. m(end_Id endEvent \<mapsto> sprintf_id kind (uuidNewHash env (end_Id endEvent))))
       stepMap ends"

definition mapGateways ::
  "env \<Rightarrow> string \<Rightarrow> BpmnGateway list \<Rightarrow> (string \<rightharpoonup> string) \<Rightarrow> (string \<rightharpoonup> string)" where
  "mapGateways env kind gateways stepMap =
     foldl (\<lambda>m gateway. m(gw_Id gateway \<mapsto> sprintf_id kind (uuidNewHash env (gw_Id gateway))))
       stepMap gateways"

text \<open>An exclusive gateway with fewer than two outgoing flows is logged and gets no entry.\<close>

definition mapExclusiveGateways ::
  "env \<Rightarrow> string \<Rightarrow> string \<Rightarrow> BpmnGateway list \<Rightarrow> (string \<rightharpoonup> string) \<Rightarrow> (string \<rightharpoonup> string)" where
  "mapExclusiveGateways env ifStepType switchStepType gateways stepMap =
     foldl (\<lambda>m exclusiveGateway.
         if length (gw_Outgoing exclusiveGateway) = 2
         then m(gw_Id exclusiveGateway \<mapsto>
                  sprintf_id ifStepType (uuidNewHash env (gw_Id exclusiveGateway)))
         else if length (gw_Outgoing exclusiveGateway) > 2
         then m(gw_Id exclusiveGateway \<mapsto>
                  sprintf_id switchStepType (uuidNewHash env (gw_Id exclusiveGateway)))
         else m)
       stepMap gateways"

text \<open>The start event and the intermediate catch events (lines 305-321): the pair is
  \<open>stepMap\<close> and \<open>startStepId\<close>.\<close>

definition mapStartEvent ::
  "env \<Rightarrow> string \<Rightarrow> BpmnStartEvent option \<Rightarrow> (string \<rightharpoonup> string) \<times> string" where
  "mapStartEvent env startStepType startEvent =
     (case startEvent of
        None \<Rightarrow> (Map.empty, [])
      | Some se \<Rightarrow>
          (let startStepId = sprintf_id startStepType (uuidNewHash env (se_Id se))
           in ([se_Id se \<mapsto> startStepId], startStepId)))"

definition mapCatchEvents ::
  "env \<Rightarrow> string \<Rightarrow> string \<Rightarrow> BpmnTask list \<Rightarrow> (string \<rightharpoonup> string) \<times> string
     \<Rightarrow> (string \<rightharpoonup> string) \<times> string" where
  "mapCatchEvents env startStepType actionStepType tasks acc =
     foldl (\<lambda>(stepMap, startStepId) task.
         if startStepId \<noteq> []
         then (stepMap(task_Id task \<mapsto> sprintf_id actionStepType (uuidNewHash env (task_Id task))),
               startStepId)
         else (stepMap, sprintf_id startStepType (uuidNewHash env (task_Id task))))
       acc tasks"

definition buildStepMap :: "env \<Rightarrow> string \<Rightarrow> BpmnProcess \<Rightarrow> (string \<rightharpoonup> string) \<times> string" where
  "buildStepMap env specVersion bpmnProcess =
     (let v11 = (specVersion = CACAO_SPEC_VERSION_11);
          startStepType = (if v11 then CACAO_STEP_TYPE_11_STEP else CACAO_STEP_TYPE_START);
          endStepType = (if v11 then CACAO_STEP_TYPE_11_STEP else CACAO_STEP_TYPE_END);
          actionStepType = (if v11 then CACAO_STEP_TYPE_11_STEP else CACAO_STEP_TYPE_ACTION);
          ifStepType = (if v11 then CACAO_STEP_TYPE_11_STEP else CACAO_STEP_TYPE_IF_COND);
          parallelStepType = (if v11 then CACAO_STEP_TYPE_11_STEP else CACAO_STEP_TYPE_PARALLEL);
          switchStepType = (if v11 then CACAO_STEP_TYPE_11_STEP else CACAO_STEP_TYPE_SWITCH_COND);
          (sm1, startStepId) =
             mapCatchEvents env startStepType actionStepType (IntermediateCatchEvent bpmnProcess)
               (mapStartEvent env startStepType (StartEvent bpmnProcess));
          sm2 = mapEndEvents env endStepType (EndEvent bpmnProcess) sm1;
          sm3 = mapTasks env actionStepType (ServiceTask bpmnProcess) sm2;
          sm4 = mapTasks env actionStepType (UserTask bpmnProcess) sm3;
          sm5 = mapTasks env actionStepType (ManualTask bpmnProcess) sm4;
          sm6 = mapTasks env actionStepType (ScriptTask bpmnProcess) sm5;
          sm7 = mapTasks env actionStepType (SendTask bpmnProcess) sm6;
          sm8 = mapTasks env actionStepType (Task bpmnProcess) sm7;
          sm9 = mapTasks env actionStepType (IntermediateThrowEvent bpmnProcess) sm8;
          sm10 = mapEndEvents env endStepType (EndEvent bpmnProcess) sm9;
          sm11 = mapExclusiveGateways env ifStepType switchStepType
                   (ExclusiveGateway bpmnProcess) sm10;
          sm12 = mapGateways env parallelStepType (ParallelGateway bpmnProcess) sm11;
          sm13 = mapGateways env parallelStepType (InclusiveGateway bpmnProcess) sm12
      in (sm13, startStepId))"

section \<open>Lowering (ProcessTask, ProcessGateway)\<close>

text \<open>
  What a lowering call changes: the playbook behind the pointer \<open>cacaoPlaybook\<close>, and
  how many random UUIDs the conversion has drawn so far. Writing to glog is left out.
\<close>

record conv_state =
  playbook :: CacaoPlaybook
  uuidCount :: nat

text \<open>\<open>cacaoPlaybook.Workflow[k] = st\<close>\<close>

definition setStep :: "string \<Rightarrow> Step \<Rightarrow> conv_state \<Rightarrow> conv_state" where
  "setStep k st s = s\<lparr>playbook := (playbook s)\<lparr>Workflow := (Workflow (playbook s))(k \<mapsto> st)\<rparr>\<rparr>"

definition endStep :: Step where
  "endStep = zeroStep\<lparr>step_Type := CACAO_STEP_TYPE_END, step_Name := ''End''\<rparr>"

text \<open>The block under the comment "create another end task and link it", which the
  source has three times: draw a UUID, store an End step under it, return its id.\<close>

definition newEndStep :: "env \<Rightarrow> string \<Rightarrow> conv_state \<Rightarrow> string \<times> conv_state" where
  "newEndStep env endStepType s =
     (let endEventUuid = uuidNew env (uuidCount s);
          stepId = sprintf_id endStepType endEventUuid
      in (stepId, setStep stepId endStep (s\<lparr>uuidCount := Suc (uuidCount s)\<rparr>)))"

text \<open>... which the source does exactly when the successor it looked up is the empty
  string: \<open>if onCompletion == "" { ... }\<close>. The pair is the successor to use and the
  state after the block.\<close>

definition orNewEndStep :: "env \<Rightarrow> string \<Rightarrow> string \<Rightarrow> conv_state \<Rightarrow> string \<times> conv_state" where
  "orNewEndStep env endStepType target s =
     (if target = [] then newEndStep env endStepType s else (target, s))"

definition ProcessTask ::
  "env \<Rightarrow> BpmnTask \<Rightarrow> string \<Rightarrow> string \<Rightarrow> (string \<rightharpoonup> string) \<Rightarrow> (string \<times> string) list
     \<Rightarrow> conv_state \<Rightarrow> conv_state" where
  "ProcessTask env task commandType specVersion stepMap nextStepMap s =
     (let taskUuid = uuidNewHash env (task_Id task);
          stepType = (if specVersion = CACAO_SPEC_VERSION_11
                      then CACAO_STEP_TYPE_11_STEP else CACAO_STEP_TYPE_ACTION);
          stepId = sprintf_id stepType taskUuid;
          (onCompletion, s1) =
             orNewEndStep env
               (if specVersion = CACAO_SPEC_VERSION_11
                then CACAO_STEP_TYPE_11_STEP else CACAO_STEP_TYPE_END)
               (lookupS stepMap (lookupS (map_of nextStepMap) (sprintf_d (task_Id task) 0)))
               s;
          internalStepType0 = (if specVersion = CACAO_SPEC_VERSION_11
                               then CACAO_STEP_TYPE_11_SINGLE else CACAO_STEP_TYPE_ACTION);
          internalStepType = (if WorkflowStart (playbook s1) = stepId
                              then CACAO_STEP_TYPE_START else internalStepType0)
      in setStep stepId
           (zeroStep\<lparr>step_Type := internalStepType, step_Name := task_Name task,
              OnCompletion := onCompletion,
              Commands := [\<lparr>cmd_Type = commandType, cmd_Command = task_Name task,
                             cmd_Description = task_Documentation task\<rparr>]\<rparr>)
           s1)"

text \<open>Lines 196-221 of \<open>ProcessGateway\<close>: the name of the condition variable, the name
  of the gateway, and the entry the gateway gets in \<open>PlaybookVariables\<close>. (The flag
  \<open>parallel\<close> of \<open>ProcessGateway\<close> is \<open>isParallel\<close> below.)\<close>

definition conditionOf :: "env \<Rightarrow> BpmnGateway \<Rightarrow> string" where
  "conditionOf env gateway =
     (let condition = keepIdentRunes env (strings_ToLower env (ReplaceAll_space (gw_Name gateway)))
      in if condition = [] then gw_Id gateway else condition)"

definition gatewayNameOf :: "BpmnGateway \<Rightarrow> string" where
  "gatewayNameOf gateway = (if gw_Name gateway = [] then gw_Id gateway else gw_Name gateway)"

definition declareCondition :: "env \<Rightarrow> BpmnGateway \<Rightarrow> conv_state \<Rightarrow> conv_state" where
  "declareCondition env gateway s =
     s\<lparr>playbook := (playbook s)\<lparr>PlaybookVariables :=
        (PlaybookVariables (playbook s))(conditionOf env gateway \<mapsto>
           \<lparr>var_Type = ''integer'', var_Description = gatewayNameOf gateway,
            var_Value = ''0'', var_Constant = False\<rparr>)\<rparr>\<rparr>"

text \<open>The case table of a switch step (lines 263-271): for every outgoing flow, one pass
  over the whole transition index.\<close>

definition switchCases ::
  "env \<Rightarrow> BpmnGateway \<Rightarrow> (string \<rightharpoonup> string) \<Rightarrow> (string \<times> string) list
     \<Rightarrow> (string \<rightharpoonup> string list)" where
  "switchCases env gateway stepMap nextStepMap =
     foldl (\<lambda>cases i.
         foldl (\<lambda>cases (key, val).
             if prefix (gw_Id gateway) key
             then cases(TrimPrefix key (gw_Id gateway @ '':'') \<mapsto> [lookupS stepMap val])
             else cases)
           cases (mapRange env (gw_Id gateway) i nextStepMap))
       Map.empty [0..<length (gw_Outgoing gateway)]"

definition ProcessGateway ::
  "env \<Rightarrow> BpmnGateway \<Rightarrow> string \<Rightarrow> bool \<Rightarrow> (string \<rightharpoonup> string) \<Rightarrow> (string \<times> string) list
     \<Rightarrow> conv_state \<Rightarrow> conv_state" where
  "ProcessGateway env gateway specVersion isParallel stepMap nextStepMap s =
     (let gatewayUuid = uuidNewHash env (gw_Id gateway);
          v11 = (specVersion = CACAO_SPEC_VERSION_11);
          parallelStepType = (if v11 then CACAO_STEP_TYPE_11_STEP else CACAO_STEP_TYPE_PARALLEL);
          ifStepType = (if v11 then CACAO_STEP_TYPE_11_STEP else CACAO_STEP_TYPE_IF_COND);
          switchStepType = (if v11 then CACAO_STEP_TYPE_11_STEP else CACAO_STEP_TYPE_SWITCH_COND);
          endStepType = (if v11 then CACAO_STEP_TYPE_11_STEP else CACAO_STEP_TYPE_END)
      in if isParallel
         then setStep (sprintf_id parallelStepType gatewayUuid)
                (zeroStep\<lparr>step_Type := CACAO_STEP_TYPE_PARALLEL,
                   NextSteps := map (\<lambda>i. lookupS stepMap
                                   (lookupS (map_of nextStepMap) (sprintf_d (gw_Id gateway) i)))
                                [0..<length (gw_Outgoing gateway)]\<rparr>)
                s
         else
           (let condition = conditionOf env gateway;
                gatewayName = gatewayNameOf gateway;
                s0 = declareCondition env gateway s
            in if length (gw_Outgoing gateway) = 2
               then
                 (let stepId = sprintf_id ifStepType gatewayUuid;
                      (onTrue, s1) =
                         orNewEndStep env endStepType
                           (lookupS stepMap
                              (lookupS (map_of nextStepMap) (sprintf_s (gw_Id gateway) ''YES'')))
                           s0;
                      (onFalse, s2) =
                         orNewEndStep env endStepType
                           (lookupS stepMap
                              (lookupS (map_of nextStepMap) (sprintf_s (gw_Id gateway) ''NO'')))
                           s1
                  in setStep stepId
                       (zeroStep\<lparr>step_Type := CACAO_STEP_TYPE_IF_COND,
                          Condition := condition @ '' == 1'', InArgs := [condition],
                          step_Name := gatewayName, OnTrue := onTrue, OnFalse := onFalse\<rparr>)
                       s2)
               else if length (gw_Outgoing gateway) > 2
               then setStep (sprintf_id switchStepType gatewayUuid)
                      (zeroStep\<lparr>step_Type := CACAO_STEP_TYPE_SWITCH_COND, InArgs := [condition],
                         step_Name := gatewayName,
                         Cases := switchCases env gateway stepMap nextStepMap,
                         Switch := condition\<rparr>)
                      s0
               else s0))"

section \<open>ConvertToCacao\<close>

datatype error = UnexpectedProcessCount nat

definition lowerTasks ::
  "env \<Rightarrow> BpmnTask list \<Rightarrow> string \<Rightarrow> string \<Rightarrow> (string \<rightharpoonup> string) \<Rightarrow> (string \<times> string) list
     \<Rightarrow> conv_state \<Rightarrow> conv_state" where
  "lowerTasks env tasks commandType specVersion stepMap nextStepMap s =
     foldl (\<lambda>s task. ProcessTask env task commandType specVersion stepMap nextStepMap s) s tasks"

definition lowerGateways ::
  "env \<Rightarrow> BpmnGateway list \<Rightarrow> string \<Rightarrow> bool \<Rightarrow> (string \<rightharpoonup> string) \<Rightarrow> (string \<times> string) list
     \<Rightarrow> conv_state \<Rightarrow> conv_state" where
  "lowerGateways env gateways specVersion isParallel stepMap nextStepMap s =
     foldl (\<lambda>s gateway. ProcessGateway env gateway specVersion isParallel stepMap nextStepMap s)
       s gateways"

definition lowerEndEvents ::
  "BpmnEndEvent list \<Rightarrow> (string \<rightharpoonup> string) \<Rightarrow> conv_state \<Rightarrow> conv_state" where
  "lowerEndEvents ends stepMap s =
     foldl (\<lambda>s endEvent. setStep (lookupS stepMap (end_Id endEvent)) endStep s) s ends"

definition lowerStartEvent ::
  "BpmnStartEvent option \<Rightarrow> (string \<rightharpoonup> string) \<Rightarrow> (string \<times> string) list
     \<Rightarrow> conv_state \<Rightarrow> conv_state" where
  "lowerStartEvent startEvent stepMap nextStepMap s =
     (case startEvent of
        None \<Rightarrow> s
      | Some se \<Rightarrow>
          setStep (lookupS stepMap (se_Id se))
            (zeroStep\<lparr>step_Type := CACAO_STEP_TYPE_START, step_Name := se_Name se,
               OnCompletion := lookupS stepMap
                 (lookupS (map_of nextStepMap) (sprintf_d (se_Id se) 0))\<rparr>)
            s)"

text \<open>The playbook as created at lines 401-412, before any step is stored.\<close>

definition newPlaybook :: "env \<Rightarrow> string \<Rightarrow> BpmnProcess \<Rightarrow> string \<Rightarrow> CacaoPlaybook" where
  "newPlaybook env specVersion bpmnProcess startStepId =
     zeroPlaybook\<lparr>pb_Type := ''playbook'', SpecVersion := specVersion,
       pb_ID := sprintf_id ''playbook'' (uuidNewHash env (proc_Id bpmnProcess)),
       pb_Name := proc_Name bpmnProcess,
       Created := Some (timeNow env), Modified := Some (timeNow env),
       WorkflowStart := startStepId, Workflow := Map.empty\<rparr>"

text \<open>The steps of the source from line 414 to the return, in its order.\<close>

definition lowerProcess ::
  "env \<Rightarrow> string \<Rightarrow> BpmnProcess \<Rightarrow> (string \<rightharpoonup> string) \<Rightarrow> (string \<times> string) list
     \<Rightarrow> conv_state \<Rightarrow> conv_state" where
  "lowerProcess env specVersion bpmnProcess stepMap nextStepMap s =
     (let s1 = lowerStartEvent (StartEvent bpmnProcess) stepMap nextStepMap s;
          s2 = lowerTasks env (IntermediateCatchEvent bpmnProcess) CACAO_COMMAND_TYPE_MANUAL
                 specVersion stepMap nextStepMap s1;
          s3 = lowerEndEvents (EndEvent bpmnProcess) stepMap s2;
          s4 = lowerTasks env (ServiceTask bpmnProcess) CACAO_COMMAND_TYPE_HTTP
                 specVersion stepMap nextStepMap s3;
          s5 = lowerTasks env (UserTask bpmnProcess) CACAO_COMMAND_TYPE_MANUAL
                 specVersion stepMap nextStepMap s4;
          s6 = lowerTasks env (ManualTask bpmnProcess) CACAO_COMMAND_TYPE_MANUAL
                 specVersion stepMap nextStepMap s5;
          s7 = lowerTasks env (ScriptTask bpmnProcess) CACAO_COMMAND_TYPE_BASH
                 specVersion stepMap nextStepMap s6;
          s8 = lowerTasks env (SendTask bpmnProcess) CACAO_COMMAND_TYPE_BASH
                 specVersion stepMap nextStepMap s7;
          s9 = lowerTasks env (Task bpmnProcess) CACAO_COMMAND_TYPE_MANUAL
                 specVersion stepMap nextStepMap s8;
          s10 = lowerTasks env (IntermediateThrowEvent bpmnProcess) CACAO_COMMAND_TYPE_MANUAL
                  specVersion stepMap nextStepMap s9;
          s11 = lowerGateways env (ExclusiveGateway bpmnProcess) specVersion False
                  stepMap nextStepMap s10;
          s12 = lowerGateways env (ParallelGateway bpmnProcess) specVersion True
                  stepMap nextStepMap s11
      in lowerGateways env (InclusiveGateway bpmnProcess) specVersion False
           stepMap nextStepMap s12)"

text \<open>The conversion with the count of random UUIDs kept, and the function itself: the
  pair \<open>(nil, err)\<close> is \<open>Inl err\<close> and \<open>(cacaoPlaybook, nil)\<close> is \<open>Inr\<close> of the playbook.\<close>

definition ConvertToCacao_run :: "env \<Rightarrow> BpmnDefinitions \<Rightarrow> string \<Rightarrow> error + conv_state" where
  "ConvertToCacao_run env bpmnDefinition specVersion =
     (if length (Processes bpmnDefinition) \<noteq> 1
      then Inl (UnexpectedProcessCount (length (Processes bpmnDefinition)))
      else
        (let bpmnProcess = Processes bpmnDefinition ! 0;
             (stepMap, startStepId) = buildStepMap env specVersion bpmnProcess;
             nextStepMap = buildNextStepMap env (SequenceFlow bpmnProcess)
         in Inr (lowerProcess env specVersion bpmnProcess stepMap nextStepMap
                   \<lparr>playbook = newPlaybook env specVersion bpmnProcess startStepId,
                    uuidCount = 0\<rparr>)))"

definition ConvertToCacao :: "env \<Rightarrow> BpmnDefinitions \<Rightarrow> string \<Rightarrow> error + CacaoPlaybook" where
  "ConvertToCacao env bpmnDefinition specVersion =
     (case ConvertToCacao_run env bpmnDefinition specVersion of
        Inl err \<Rightarrow> Inl err
      | Inr s \<Rightarrow> Inr (playbook s))"

section \<open>Inputs and an environment for examples\<close>

text \<open>The zero values of the input structs, from which the examples are built by
  setting fields.\<close>

definition zeroStartEvent :: BpmnStartEvent where
  "zeroStartEvent = \<lparr>se_Id = [], se_Name = [], se_Outgoing = []\<rparr>"

definition zeroTask :: BpmnTask where
  "zeroTask = \<lparr>task_Id = [], task_Name = [], task_Documentation = [], task_Incoming = [],
     task_Outgoing = []\<rparr>"

definition zeroGateway :: BpmnGateway where
  "zeroGateway = \<lparr>gw_Id = [], gw_Name = [], gw_Incoming = [], gw_Outgoing = []\<rparr>"

definition zeroEndEvent :: BpmnEndEvent where
  "zeroEndEvent = \<lparr>end_Id = [], end_Name = [], end_Incoming = [],
     end_SignalEventDefinit = \<lparr>sig_Id = []\<rparr>\<rparr>"

definition zeroFlow :: BpmnSequenceFlow where
  "zeroFlow = \<lparr>flow_Id = [], flow_SourceRef = [], flow_TargetRef = [], flow_Name = []\<rparr>"

definition zeroProcess :: BpmnProcess where
  "zeroProcess = \<lparr>proc_Id = [], proc_Name = [], proc_IsExecutable = False,
     proc_CamundaVersionTag = [], StartEvent = None, ServiceTask = [], UserTask = [],
     ManualTask = [], ScriptTask = [], SendTask = [], Task = [], IntermediateThrowEvent = [],
     IntermediateCatchEvent = [], ExclusiveGateway = [], InclusiveGateway = [],
     ParallelGateway = [], EndEvent = [], SequenceFlow = []\<rparr>"

definition zeroDefinitions :: BpmnDefinitions where
  "zeroDefinitions = \<lparr>def_XMLName = ([], []), def_Bpmn = [], def_Bpmndi = [], def_Dc = [],
     def_Di = [], def_Bioc = [], def_Camunda = [], def_Id = [], def_TargetNamespace = [],
     def_Exporter = [], def_ExporterVersion = [], Processes = []\<rparr>"

definition mkFlow :: "string \<Rightarrow> string \<Rightarrow> string \<Rightarrow> BpmnSequenceFlow" where
  "mkFlow src label tgt = zeroFlow\<lparr>flow_SourceRef := src, flow_Name := label, flow_TargetRef := tgt\<rparr>"

text \<open>
  The environment of the examples. The string functions are those of Go on ASCII text. A
  UUID is abbreviated to a short text that keeps what the conversion relies on: the
  name-based one is a function of the node id, the \<open>n\<close>-th random one is a function of
  \<open>n\<close>, and the two kinds never coincide (a version-5 and a version-4 UUID differ in
  their version digit). The maps are ranged over in the order of insertion.
\<close>

definition asciiUpper :: "string \<Rightarrow> string" where
  "asciiUpper = map (\<lambda>c. case map_of (zip ''abcdefghijklmnopqrstuvwxyz''
                                            ''ABCDEFGHIJKLMNOPQRSTUVWXYZ'') c of
                           None \<Rightarrow> c | Some u \<Rightarrow> u)"

definition asciiLower :: "string \<Rightarrow> string" where
  "asciiLower = map (\<lambda>c. case map_of (zip ''ABCDEFGHIJKLMNOPQRSTUVWXYZ''
                                            ''abcdefghijklmnopqrstuvwxyz'') c of
                           None \<Rightarrow> c | Some l \<Rightarrow> l)"

definition asciiIdent :: "string \<Rightarrow> string" where
  "asciiIdent = filter (\<lambda>c. c \<in> set
     ''abcdefghijklmnopqrstuvwxyzABCDEFGHIJKLMNOPQRSTUVWXYZ0123456789_'')"

definition exampleEnv :: env where
  "exampleEnv = \<lparr>uuidNewHash = (\<lambda>i. ''5-'' @ i), uuidNew = (\<lambda>n. ''4-'' @ showNat n),
     timeNow = 0, strings_ToUpper = asciiUpper, strings_ToLower = asciiLower,
     keepIdentRunes = asciiIdent, mapRange = (\<lambda>gid i m. m)\<rparr>"

text \<open>A document whose only node is an intermediate catch event, and the same with two
  processes.\<close>

definition catchOnly :: BpmnDefinitions where
  "catchOnly = zeroDefinitions\<lparr>Processes :=
     [zeroProcess\<lparr>proc_Id := ''Process_1'', proc_Name := ''Alert'',
        IntermediateCatchEvent := [zeroTask\<lparr>task_Id := ''Event_1'', task_Name := ''Alert''\<rparr>]\<rparr>]\<rparr>"

definition twoProcesses :: BpmnDefinitions where
  "twoProcesses = zeroDefinitions\<lparr>Processes := [zeroProcess, zeroProcess]\<rparr>"

text \<open>A document with a start event only.\<close>

definition startOnly :: BpmnDefinitions where
  "startOnly = zeroDefinitions\<lparr>Processes :=
     [zeroProcess\<lparr>proc_Id := ''Process_1'',
        StartEvent := Some (zeroStartEvent\<lparr>se_Id := ''StartEvent_1''\<rparr>)\<rparr>]\<rparr>"

text \<open>The environments of second runs on the same input: one with a later clock, one
  with other random UUIDs, one with the same first random UUID and a later clock.\<close>

definition laterClockEnv :: env where
  "laterClockEnv = exampleEnv\<lparr>timeNow := 1\<rparr>"

definition otherDrawsEnv :: env where
  "otherDrawsEnv = exampleEnv\<lparr>uuidNew := (\<lambda>n. ''4-b'' @ showNat n)\<rparr>"

definition sameFirstDrawEnv :: env where
  "sameFirstDrawEnv = exampleEnv\<lparr>uuidNew := (\<lambda>n. if n = 0 then ''4-0'' else ''4-z''), timeNow := 7\<rparr>"

text \<open>A task with no outgoing flow, and the state before anything is lowered.\<close>

definition checkTask :: BpmnTask where
  "checkTask = zeroTask\<lparr>task_Id := ''Activity_1'', task_Name := ''Check''\<rparr>"

definition emptyState :: conv_state where
  "emptyState = \<lparr>playbook = zeroPlaybook, uuidCount = 0\<rparr>"

text \<open>A gateway whose \<open>YES\<close> branch is found and whose \<open>NO\<close> branch is not.\<close>

definition approvedGateway :: BpmnGateway where
  "approvedGateway = zeroGateway\<lparr>gw_Id := ''Gateway_1'', gw_Name := ''Approved?'',
     gw_Outgoing := [''Flow_1'', ''Flow_2'']\<rparr>"

text \<open>A parallel gateway one of whose flows goes to a node the parser does not read (a
  sub-process), and a start event that flows into an inclusive gateway.\<close>

definition parallelDangling :: BpmnDefinitions where
  "parallelDangling = zeroDefinitions\<lparr>Processes :=
     [zeroProcess\<lparr>proc_Id := ''Process_1'',
        StartEvent := Some (zeroStartEvent\<lparr>se_Id := ''StartEvent_1''\<rparr>),
        Task := [zeroTask\<lparr>task_Id := ''Activity_1'', task_Name := ''Notify''\<rparr>],
        ParallelGateway := [zeroGateway\<lparr>gw_Id := ''Gateway_1'',
                              gw_Outgoing := [''Flow_2'', ''Flow_3'']\<rparr>],
        SequenceFlow := [mkFlow ''StartEvent_1'' [] ''Gateway_1'',
                         mkFlow ''Gateway_1'' [] ''Activity_1'',
                         mkFlow ''Gateway_1'' [] ''SubProcess_1'']\<rparr>]\<rparr>"

definition inclusiveTarget :: BpmnDefinitions where
  "inclusiveTarget = zeroDefinitions\<lparr>Processes :=
     [zeroProcess\<lparr>proc_Id := ''Process_1'',
        StartEvent := Some (zeroStartEvent\<lparr>se_Id := ''StartEvent_1''\<rparr>),
        InclusiveGateway := [zeroGateway\<lparr>gw_Id := ''Gateway_1'', gw_Name := ''Escalate?'',
                               gw_Outgoing := [''Flow_2'', ''Flow_3'']\<rparr>],
        SequenceFlow := [mkFlow ''StartEvent_1'' [] ''Gateway_1'']\<rparr>]\<rparr>"

text \<open>Two exclusive gateways, the id of the second continuing the id of the first: \<open>Gateway_1\<close>
  has the three flows \<open>A\<close>, \<open>B\<close>, \<open>C\<close>, and \<open>Gateway_10\<close> has two.\<close>

definition switchWithNeighbour :: BpmnDefinitions where
  "switchWithNeighbour = zeroDefinitions\<lparr>Processes :=
     [zeroProcess\<lparr>proc_Id := ''Process_1'',
        Task := [zeroTask\<lparr>task_Id := ''Task_A''\<rparr>, zeroTask\<lparr>task_Id := ''Task_B''\<rparr>,
                 zeroTask\<lparr>task_Id := ''Task_C''\<rparr>],
        ExclusiveGateway :=
          [zeroGateway\<lparr>gw_Id := ''Gateway_1'', gw_Name := ''Kind'',
             gw_Outgoing := [''Flow_1'', ''Flow_2'', ''Flow_3'']\<rparr>,
           zeroGateway\<lparr>gw_Id := ''Gateway_10'', gw_Name := ''Approved'',
             gw_Outgoing := [''Flow_4'', ''Flow_5'']\<rparr>],
        SequenceFlow := [mkFlow ''Gateway_1'' ''A'' ''Task_A'',
                         mkFlow ''Gateway_1'' ''B'' ''Task_B'',
                         mkFlow ''Gateway_1'' ''C'' ''Gateway_10'',
                         mkFlow ''Gateway_10'' ''Yes'' ''Task_C'',
                         mkFlow ''Gateway_10'' ''No'' ''Task_A'']\<rparr>]\<rparr>"

section \<open>Notions for the statements and the proofs\<close>

text \<open>What of a result is compared between two runs: the keys of the workflow; how many
  random UUIDs a conversion draws (one per synthesized End step); the playbook with the
  two timestamps replaced.\<close>

definition stepIds :: "error + CacaoPlaybook \<Rightarrow> string set" where
  "stepIds r = (case r of Inl err \<Rightarrow> {} | Inr p \<Rightarrow> dom (Workflow p))"

definition drawn :: "env \<Rightarrow> BpmnDefinitions \<Rightarrow> string \<Rightarrow> nat" where
  "drawn env d v = (case ConvertToCacao_run env d v of Inl err \<Rightarrow> 0 | Inr s \<Rightarrow> uuidCount s)"

definition restamp :: "Time \<Rightarrow> CacaoPlaybook \<Rightarrow> CacaoPlaybook" where
  "restamp t p = p\<lparr>Created := Some t, Modified := Some t\<rparr>"

text \<open>
  The lowering steps are compared between two runs: the second may have another clock,
  other random UUIDs and another spelling of the version, and starts from a playbook that
  differs from the first only in fields the lowering never reads (\<open>retag f\<close>). As long as
  the random UUIDs drawn so far are the same, the two runs stay in step.
\<close>

definition retag :: "(CacaoPlaybook \<Rightarrow> CacaoPlaybook) \<Rightarrow> conv_state \<Rightarrow> conv_state" where
  "retag f s = s\<lparr>playbook := f (playbook s)\<rparr>"

definition envelope_update :: "(CacaoPlaybook \<Rightarrow> CacaoPlaybook) \<Rightarrow> bool" where
  "envelope_update f =
     ((\<forall>p. WorkflowStart (f p) = WorkflowStart p) \<and>
      (\<forall>p w. f (p\<lparr>Workflow := w\<rparr>) = (f p)\<lparr>Workflow := w\<rparr>) \<and>
      (\<forall>p w. f (p\<lparr>PlaybookVariables := w\<rparr>) = (f p)\<lparr>PlaybookVariables := w\<rparr>) \<and>
      (\<forall>p. Workflow (f p) = Workflow p) \<and>
      (\<forall>p. PlaybookVariables (f p) = PlaybookVariables p))"

definition same_library :: "env \<Rightarrow> env \<Rightarrow> bool" where
  "same_library env env' =
     (uuidNewHash env' = uuidNewHash env \<and> strings_ToUpper env' = strings_ToUpper env \<and>
      strings_ToLower env' = strings_ToLower env \<and> keepIdentRunes env' = keepIdentRunes env \<and>
      mapRange env' = mapRange env)"

definition same_version :: "string \<Rightarrow> string \<Rightarrow> bool" where
  "same_version v v' = ((v' = CACAO_SPEC_VERSION_11) = (v = CACAO_SPEC_VERSION_11))"

definition same_draws :: "env \<Rightarrow> env \<Rightarrow> nat \<Rightarrow> bool" where
  "same_draws env env' n = (\<forall>i<n. uuidNew env' i = uuidNew env i)"

text \<open>The ids and the steps that \<open>ProcessTask\<close> and \<open>ProcessGateway\<close> store, by name.\<close>

definition taskStepId :: "env \<Rightarrow> string \<Rightarrow> string \<Rightarrow> string" where
  "taskStepId env v i =
     sprintf_id (if v = CACAO_SPEC_VERSION_11 then CACAO_STEP_TYPE_11_STEP else CACAO_STEP_TYPE_ACTION)
       (uuidNewHash env i)"

definition endTypeOf :: "string \<Rightarrow> string" where
  "endTypeOf v = (if v = CACAO_SPEC_VERSION_11 then CACAO_STEP_TYPE_11_STEP else CACAO_STEP_TYPE_END)"

definition taskStep :: "BpmnTask \<Rightarrow> string \<Rightarrow> string \<Rightarrow> bool \<Rightarrow> string \<Rightarrow> Step" where
  "taskStep task c v isStart onCompletion =
     zeroStep\<lparr>step_Type := (if isStart then CACAO_STEP_TYPE_START
                             else if v = CACAO_SPEC_VERSION_11 then CACAO_STEP_TYPE_11_SINGLE
                             else CACAO_STEP_TYPE_ACTION),
       step_Name := task_Name task, OnCompletion := onCompletion,
       Commands := [\<lparr>cmd_Type = c, cmd_Command = task_Name task,
                      cmd_Description = task_Documentation task\<rparr>]\<rparr>"

definition gatewayStepId :: "env \<Rightarrow> string \<Rightarrow> string \<Rightarrow> string \<Rightarrow> string" where
  "gatewayStepId env v kind i =
     sprintf_id (if v = CACAO_SPEC_VERSION_11 then CACAO_STEP_TYPE_11_STEP else kind) (uuidNewHash env i)"

definition parallelStep :: "BpmnGateway \<Rightarrow> (string \<rightharpoonup> string) \<Rightarrow> (string \<times> string) list \<Rightarrow> Step" where
  "parallelStep g sm nsm =
     zeroStep\<lparr>step_Type := CACAO_STEP_TYPE_PARALLEL,
       NextSteps := map (\<lambda>i. lookupS sm (lookupS (map_of nsm) (sprintf_d (gw_Id g) i)))
                      [0..<length (gw_Outgoing g)]\<rparr>"

definition ifStep :: "env \<Rightarrow> BpmnGateway \<Rightarrow> string \<Rightarrow> string \<Rightarrow> Step" where
  "ifStep env g onTrue onFalse =
     zeroStep\<lparr>step_Type := CACAO_STEP_TYPE_IF_COND, Condition := conditionOf env g @ '' == 1'',
       InArgs := [conditionOf env g], step_Name := gatewayNameOf g,
       OnTrue := onTrue, OnFalse := onFalse\<rparr>"

definition switchStep :: "env \<Rightarrow> BpmnGateway \<Rightarrow> (string \<rightharpoonup> string) \<Rightarrow> (string \<times> string) list \<Rightarrow> Step" where
  "switchStep env g sm nsm =
     zeroStep\<lparr>step_Type := CACAO_STEP_TYPE_SWITCH_COND, InArgs := [conditionOf env g],
       step_Name := gatewayNameOf g, Cases := switchCases env g sm nsm,
       Switch := conditionOf env g\<rparr>"

text \<open>What the probing loop finds from \<open>i\<close> on: the first \<open>k\<close> whose key the map does not hold.\<close>

definition probe_result :: "(string \<times> string) list \<Rightarrow> string \<Rightarrow> nat \<Rightarrow> nat \<Rightarrow> bool" where
  "probe_result m src i k =
     (i \<le> k \<and> map_of m (sprintf_d src k) = None \<and>
      (\<forall>j. i \<le> j \<and> j < k \<longrightarrow> map_of m (sprintf_d src j) \<noteq> None))"

section \<open>Two runs side by side\<close>

lemma same_draws_mono: "same_draws env env' n \<Longrightarrow> m \<le> n \<Longrightarrow> same_draws env env' m"
  by (simp add: same_draws_def)

lemma same_library_hash: "same_library env env' \<Longrightarrow> uuidNewHash env' = uuidNewHash env"
  by (simp add: same_library_def)

subsection \<open>The three writes\<close>

lemma uuidCount_setStep [simp]: "uuidCount (setStep k st s) = uuidCount s"
  by (simp add: setStep_def)

lemma uuidCount_declareCondition [simp]: "uuidCount (declareCondition env g s) = uuidCount s"
  by (simp add: declareCondition_def)

lemma uuidCount_orNewEndStep:
  "uuidCount (snd (orNewEndStep env t x s)) = (if x = [] then Suc (uuidCount s) else uuidCount s)"
  by (simp add: orNewEndStep_def newEndStep_def Let_def)

lemma fst_orNewEndStep:
  "fst (orNewEndStep env t x s) = (if x = [] then sprintf_id t (uuidNew env (uuidCount s)) else x)"
  by (simp add: orNewEndStep_def newEndStep_def Let_def)

lemma uuidCount_retag [simp]: "uuidCount (retag f s) = uuidCount s"
  by (simp add: retag_def)

lemma WorkflowStart_retag [simp]:
  "envelope_update f \<Longrightarrow> WorkflowStart (playbook (retag f s)) = WorkflowStart (playbook s)"
  by (simp add: retag_def envelope_update_def)

lemma WorkflowStart_setStep [simp]:
  "WorkflowStart (playbook (setStep k st s)) = WorkflowStart (playbook s)"
  by (simp add: setStep_def)

lemma WorkflowStart_declareCondition [simp]:
  "WorkflowStart (playbook (declareCondition env g s)) = WorkflowStart (playbook s)"
  by (simp add: declareCondition_def)

lemma WorkflowStart_orNewEndStep [simp]:
  "WorkflowStart (playbook (snd (orNewEndStep env t x s))) = WorkflowStart (playbook s)"
  by (simp add: orNewEndStep_def newEndStep_def Let_def setStep_def)

lemma setStep_retag:
  "envelope_update f \<Longrightarrow> setStep k st (retag f s) = retag f (setStep k st s)"
  by (simp add: setStep_def retag_def envelope_update_def)

lemma conditionOf_library: "same_library env env' \<Longrightarrow> conditionOf env' g = conditionOf env g"
  by (simp add: conditionOf_def same_library_def)

lemma switchCases_library:
  "same_library env env' \<Longrightarrow> switchCases env' g sm nsm = switchCases env g sm nsm"
  by (simp add: switchCases_def same_library_def)

lemma declareCondition_retag:
  "envelope_update f \<Longrightarrow> same_library env env' \<Longrightarrow>
   declareCondition env' g (retag f s) = retag f (declareCondition env g s)"
  by (simp add: declareCondition_def retag_def envelope_update_def conditionOf_library)

lemma orNewEndStep_retag:
  assumes f: "envelope_update f"
    and d: "same_draws env env' (uuidCount (snd (orNewEndStep env t x s)))"
  shows "orNewEndStep env' t x (retag f s)
           = (fst (orNewEndStep env t x s), retag f (snd (orNewEndStep env t x s)))"
proof (cases "x = []")
  case True
  with d have "uuidNew env' (uuidCount s) = uuidNew env (uuidCount s)"
    by (simp add: uuidCount_orNewEndStep same_draws_def)
  with True f show ?thesis
    by (simp add: orNewEndStep_def newEndStep_def Let_def setStep_def retag_def envelope_update_def)
next
  case False
  then show ?thesis by (simp add: orNewEndStep_def)
qed

subsection \<open>ProcessTask and ProcessGateway in terms of the writes\<close>

lemma ProcessTask_alt:
  "ProcessTask env task c v sm nsm s =
     (let r = orNewEndStep env (endTypeOf v)
                (lookupS sm (lookupS (map_of nsm) (sprintf_d (task_Id task) 0))) s
      in setStep (taskStepId env v (task_Id task))
           (taskStep task c v (WorkflowStart (playbook s) = taskStepId env v (task_Id task)) (fst r))
           (snd r))"
  by (cases "v = CACAO_SPEC_VERSION_11")
     (simp_all add: ProcessTask_def Let_def case_prod_beta taskStepId_def endTypeOf_def
        taskStep_def)

lemma ProcessTask_uuidCount:
  "uuidCount (ProcessTask env task c v sm nsm s) =
     (if lookupS sm (lookupS (map_of nsm) (sprintf_d (task_Id task) 0)) = []
      then Suc (uuidCount s) else uuidCount s)"
  by (simp add: ProcessTask_alt Let_def uuidCount_orNewEndStep)

lemma taskStepId_agree:
  "same_library env env' \<Longrightarrow> same_version v v' \<Longrightarrow> taskStepId env' v' i = taskStepId env v i"
  by (simp add: taskStepId_def same_library_def same_version_def)

lemma taskStep_agree: "same_version v v' \<Longrightarrow> taskStep task c v' b x = taskStep task c v b x"
  by (simp add: taskStep_def same_version_def)

lemma endTypeOf_agree: "same_version v v' \<Longrightarrow> endTypeOf v' = endTypeOf v"
  by (simp add: endTypeOf_def same_version_def)

lemma ProcessTask_retag:
  assumes f: "envelope_update f" and l: "same_library env env'" and v: "same_version v v'"
    and d: "same_draws env env' (uuidCount (ProcessTask env task c v sm nsm s))"
  shows "ProcessTask env' task c v' sm nsm (retag f s)
           = retag f (ProcessTask env task c v sm nsm s)"
proof -
  from d have "same_draws env env' (uuidCount (snd (orNewEndStep env (endTypeOf v)
                  (lookupS sm (lookupS (map_of nsm) (sprintf_d (task_Id task) 0))) s)))"
    by (simp add: ProcessTask_alt Let_def)
  from orNewEndStep_retag [OF f this] f show ?thesis
    by (simp add: ProcessTask_alt Let_def taskStepId_agree [OF l v] taskStep_agree [OF v]
        endTypeOf_agree [OF v] setStep_retag)
qed

lemma ProcessGateway_parallel:
  "ProcessGateway env g v True sm nsm s =
     setStep (gatewayStepId env v CACAO_STEP_TYPE_PARALLEL (gw_Id g)) (parallelStep g sm nsm) s"
  by (simp add: ProcessGateway_def Let_def gatewayStepId_def parallelStep_def)

lemma ProcessGateway_binary:
  "length (gw_Outgoing g) = 2 \<Longrightarrow>
   ProcessGateway env g v False sm nsm s =
     (let r1 = orNewEndStep env (endTypeOf v)
                 (lookupS sm (lookupS (map_of nsm) (sprintf_s (gw_Id g) ''YES'')))
                 (declareCondition env g s);
          r2 = orNewEndStep env (endTypeOf v)
                 (lookupS sm (lookupS (map_of nsm) (sprintf_s (gw_Id g) ''NO''))) (snd r1)
      in setStep (gatewayStepId env v CACAO_STEP_TYPE_IF_COND (gw_Id g))
           (ifStep env g (fst r1) (fst r2)) (snd r2))"
  by (simp add: ProcessGateway_def Let_def case_prod_beta gatewayStepId_def ifStep_def
      endTypeOf_def)

lemma ProcessGateway_switch:
  "length (gw_Outgoing g) > 2 \<Longrightarrow>
   ProcessGateway env g v False sm nsm s =
     setStep (gatewayStepId env v CACAO_STEP_TYPE_SWITCH_COND (gw_Id g))
       (switchStep env g sm nsm) (declareCondition env g s)"
  by (simp add: ProcessGateway_def Let_def gatewayStepId_def switchStep_def)

lemma ProcessGateway_anomaly:
  "length (gw_Outgoing g) < 2 \<Longrightarrow>
   ProcessGateway env g v False sm nsm s = declareCondition env g s"
  by (simp add: ProcessGateway_def Let_def)

lemma gateway_cases:
  obtains (parallel) "par" | (binary) "\<not> par" "length (gw_Outgoing g) = 2"
  | (switch) "\<not> par" "length (gw_Outgoing g) > 2" | (anomaly) "\<not> par" "length (gw_Outgoing g) < 2"
  by (cases par; cases "length (gw_Outgoing g) = 2"; cases "length (gw_Outgoing g) > 2") auto

lemma ProcessGateway_uuidCount:
  "uuidCount (ProcessGateway env g v par sm nsm s) =
     (if \<not> par \<and> length (gw_Outgoing g) = 2
      then uuidCount s
           + (if lookupS sm (lookupS (map_of nsm) (sprintf_s (gw_Id g) ''YES'')) = [] then 1 else 0)
           + (if lookupS sm (lookupS (map_of nsm) (sprintf_s (gw_Id g) ''NO'')) = [] then 1 else 0)
      else uuidCount s)"
  by (cases rule: gateway_cases [where par = par and g = g])
     (simp_all add: ProcessGateway_parallel ProcessGateway_binary ProcessGateway_switch
        ProcessGateway_anomaly Let_def uuidCount_orNewEndStep)

lemma gatewayStepId_agree:
  "same_library env env' \<Longrightarrow> same_version v v' \<Longrightarrow>
   gatewayStepId env' v' k i = gatewayStepId env v k i"
  by (simp add: gatewayStepId_def same_library_def same_version_def)

lemma ProcessGateway_retag:
  assumes f: "envelope_update f" and l: "same_library env env'" and v: "same_version v v'"
    and d: "same_draws env env' (uuidCount (ProcessGateway env g v par sm nsm s))"
  shows "ProcessGateway env' g v' par sm nsm (retag f s)
           = retag f (ProcessGateway env g v par sm nsm s)"
proof (cases rule: gateway_cases [where par = par and g = g])
  case parallel
  with f show ?thesis
    by (simp add: ProcessGateway_parallel gatewayStepId_agree [OF l v] setStep_retag)
next
  case switch
  with f show ?thesis
    by (simp add: ProcessGateway_switch gatewayStepId_agree [OF l v] setStep_retag
        declareCondition_retag [OF f l] switchStep_def switchCases_library [OF l]
        conditionOf_library [OF l])
next
  case anomaly
  then show ?thesis
    by (simp add: ProcessGateway_anomaly declareCondition_retag [OF f l])
next
  case binary
  let ?s0 = "declareCondition env g s"
  let ?r1 = "orNewEndStep env (endTypeOf v)
               (lookupS sm (lookupS (map_of nsm) (sprintf_s (gw_Id g) ''YES''))) ?s0"
  let ?r2 = "orNewEndStep env (endTypeOf v)
               (lookupS sm (lookupS (map_of nsm) (sprintf_s (gw_Id g) ''NO''))) (snd ?r1)"
  from binary have fin: "uuidCount (ProcessGateway env g v par sm nsm s) = uuidCount (snd ?r2)"
    by (simp add: ProcessGateway_binary Let_def)
  have mono: "uuidCount (snd ?r1) \<le> uuidCount (snd ?r2)"
    by (simp add: uuidCount_orNewEndStep)
  from d fin have d2: "same_draws env env' (uuidCount (snd ?r2))" by simp
  from same_draws_mono [OF d2 mono] have d1: "same_draws env env' (uuidCount (snd ?r1))" .
  note e1 = orNewEndStep_retag [OF f d1]
  note e2 = orNewEndStep_retag [OF f d2]
  from binary f show ?thesis
    by (simp add: ProcessGateway_binary Let_def gatewayStepId_agree [OF l v] setStep_retag
        declareCondition_retag [OF f l] endTypeOf_agree [OF v] e1 e2 ifStep_def
        conditionOf_library [OF l])
qed

subsection \<open>The category iterations\<close>

lemma lowerTasks_Nil [simp]: "lowerTasks env [] c v sm nsm s = s"
  by (simp add: lowerTasks_def)

lemma lowerTasks_Cons [simp]:
  "lowerTasks env (t # ts) c v sm nsm s = lowerTasks env ts c v sm nsm (ProcessTask env t c v sm nsm s)"
  by (simp add: lowerTasks_def)

lemma lowerGateways_Nil [simp]: "lowerGateways env [] v par sm nsm s = s"
  by (simp add: lowerGateways_def)

lemma lowerGateways_Cons [simp]:
  "lowerGateways env (g # gs) v par sm nsm s
     = lowerGateways env gs v par sm nsm (ProcessGateway env g v par sm nsm s)"
  by (simp add: lowerGateways_def)

lemma lowerEndEvents_Nil [simp]: "lowerEndEvents [] sm s = s"
  by (simp add: lowerEndEvents_def)

lemma lowerEndEvents_Cons [simp]:
  "lowerEndEvents (e # es) sm s = lowerEndEvents es sm (setStep (lookupS sm (end_Id e)) endStep s)"
  by (simp add: lowerEndEvents_def)

lemma lowerTasks_mono: "uuidCount s \<le> uuidCount (lowerTasks env ts c v sm nsm s)"
proof (induction ts arbitrary: s)
  case Nil
  show ?case by simp
next
  case (Cons t ts)
  have "uuidCount s \<le> uuidCount (ProcessTask env t c v sm nsm s)"
    by (simp add: ProcessTask_uuidCount)
  also have "\<dots> \<le> uuidCount (lowerTasks env ts c v sm nsm (ProcessTask env t c v sm nsm s))"
    by (rule Cons.IH)
  finally show ?case by simp
qed

lemma lowerGateways_mono: "uuidCount s \<le> uuidCount (lowerGateways env gs v par sm nsm s)"
proof (induction gs arbitrary: s)
  case Nil
  show ?case by simp
next
  case (Cons g gs)
  have "uuidCount s \<le> uuidCount (ProcessGateway env g v par sm nsm s)"
    by (simp add: ProcessGateway_uuidCount)
  also have "\<dots> \<le> uuidCount (lowerGateways env gs v par sm nsm (ProcessGateway env g v par sm nsm s))"
    by (rule Cons.IH)
  finally show ?case by simp
qed

lemma lowerEndEvents_uuidCount [simp]: "uuidCount (lowerEndEvents es sm s) = uuidCount s"
  by (induction es arbitrary: s) simp_all

lemma lowerStartEvent_uuidCount [simp]: "uuidCount (lowerStartEvent se sm nsm s) = uuidCount s"
  by (simp add: lowerStartEvent_def split: option.splits)

lemma lowerTasks_retag:
  assumes f: "envelope_update f" and l: "same_library env env'" and v: "same_version v v'"
  shows "same_draws env env' (uuidCount (lowerTasks env ts c v sm nsm s)) \<Longrightarrow>
         lowerTasks env' ts c v' sm nsm (retag f s) = retag f (lowerTasks env ts c v sm nsm s)"
proof (induction ts arbitrary: s)
  case Nil
  show ?case by simp
next
  case (Cons t ts)
  let ?s1 = "ProcessTask env t c v sm nsm s"
  from Cons.prems have d: "same_draws env env' (uuidCount (lowerTasks env ts c v sm nsm ?s1))"
    by simp
  from same_draws_mono [OF d lowerTasks_mono]
  have "ProcessTask env' t c v' sm nsm (retag f s) = retag f ?s1"
    by (rule ProcessTask_retag [OF f l v])
  with Cons.IH [OF d] show ?case by simp
qed

lemma lowerGateways_retag:
  assumes f: "envelope_update f" and l: "same_library env env'" and v: "same_version v v'"
  shows "same_draws env env' (uuidCount (lowerGateways env gs v par sm nsm s)) \<Longrightarrow>
         lowerGateways env' gs v' par sm nsm (retag f s)
           = retag f (lowerGateways env gs v par sm nsm s)"
proof (induction gs arbitrary: s)
  case Nil
  show ?case by simp
next
  case (Cons g gs)
  let ?s1 = "ProcessGateway env g v par sm nsm s"
  from Cons.prems have d: "same_draws env env' (uuidCount (lowerGateways env gs v par sm nsm ?s1))"
    by simp
  from same_draws_mono [OF d lowerGateways_mono]
  have "ProcessGateway env' g v' par sm nsm (retag f s) = retag f ?s1"
    by (rule ProcessGateway_retag [OF f l v])
  with Cons.IH [OF d] show ?case by simp
qed

lemma lowerEndEvents_retag:
  assumes f: "envelope_update f"
  shows "lowerEndEvents es sm (retag f s) = retag f (lowerEndEvents es sm s)"
  by (induction es arbitrary: s) (simp_all add: setStep_retag [OF f])

lemma lowerStartEvent_retag:
  assumes f: "envelope_update f"
  shows "lowerStartEvent se sm nsm (retag f s) = retag f (lowerStartEvent se sm nsm s)"
  by (simp add: lowerStartEvent_def setStep_retag [OF f] split: option.splits)

lemma lowerProcess_retag:
  assumes f: "envelope_update f" and l: "same_library env env'" and v: "same_version v v'"
    and d: "same_draws env env' (uuidCount (lowerProcess env v p sm nsm s))"
  shows "lowerProcess env' v' p sm nsm (retag f s) = retag f (lowerProcess env v p sm nsm s)"
proof -
  let ?s1 = "lowerStartEvent (StartEvent p) sm nsm s"
  let ?s2 = "lowerTasks env (IntermediateCatchEvent p) CACAO_COMMAND_TYPE_MANUAL v sm nsm ?s1"
  let ?s3 = "lowerEndEvents (EndEvent p) sm ?s2"
  let ?s4 = "lowerTasks env (ServiceTask p) CACAO_COMMAND_TYPE_HTTP v sm nsm ?s3"
  let ?s5 = "lowerTasks env (UserTask p) CACAO_COMMAND_TYPE_MANUAL v sm nsm ?s4"
  let ?s6 = "lowerTasks env (ManualTask p) CACAO_COMMAND_TYPE_MANUAL v sm nsm ?s5"
  let ?s7 = "lowerTasks env (ScriptTask p) CACAO_COMMAND_TYPE_BASH v sm nsm ?s6"
  let ?s8 = "lowerTasks env (SendTask p) CACAO_COMMAND_TYPE_BASH v sm nsm ?s7"
  let ?s9 = "lowerTasks env (Task p) CACAO_COMMAND_TYPE_MANUAL v sm nsm ?s8"
  let ?s10 = "lowerTasks env (IntermediateThrowEvent p) CACAO_COMMAND_TYPE_MANUAL v sm nsm ?s9"
  let ?s11 = "lowerGateways env (ExclusiveGateway p) v False sm nsm ?s10"
  let ?s12 = "lowerGateways env (ParallelGateway p) v True sm nsm ?s11"
  let ?s13 = "lowerGateways env (InclusiveGateway p) v False sm nsm ?s12"
  have fin: "lowerProcess env v p sm nsm s = ?s13" by (simp add: lowerProcess_def Let_def)
  from d fin have d13: "same_draws env env' (uuidCount ?s13)" by simp
  have m13: "uuidCount ?s12 \<le> uuidCount ?s13" by (rule lowerGateways_mono)
  note d12 = same_draws_mono [OF d13 m13]
  have m12: "uuidCount ?s11 \<le> uuidCount ?s12" by (rule lowerGateways_mono)
  note d11 = same_draws_mono [OF d12 m12]
  have m11: "uuidCount ?s10 \<le> uuidCount ?s11" by (rule lowerGateways_mono)
  note d10 = same_draws_mono [OF d11 m11]
  have m10: "uuidCount ?s9 \<le> uuidCount ?s10" by (rule lowerTasks_mono)
  note d9 = same_draws_mono [OF d10 m10]
  have m9: "uuidCount ?s8 \<le> uuidCount ?s9" by (rule lowerTasks_mono)
  note d8 = same_draws_mono [OF d9 m9]
  have m8: "uuidCount ?s7 \<le> uuidCount ?s8" by (rule lowerTasks_mono)
  note d7 = same_draws_mono [OF d8 m8]
  have m7: "uuidCount ?s6 \<le> uuidCount ?s7" by (rule lowerTasks_mono)
  note d6 = same_draws_mono [OF d7 m7]
  have m6: "uuidCount ?s5 \<le> uuidCount ?s6" by (rule lowerTasks_mono)
  note d5 = same_draws_mono [OF d6 m6]
  have m5: "uuidCount ?s4 \<le> uuidCount ?s5" by (rule lowerTasks_mono)
  note d4 = same_draws_mono [OF d5 m5]
  have m4: "uuidCount ?s3 \<le> uuidCount ?s4" by (rule lowerTasks_mono)
  note d3 = same_draws_mono [OF d4 m4]
  have m3: "uuidCount ?s2 \<le> uuidCount ?s3" by (simp add: lowerEndEvents_uuidCount)
  note d2 = same_draws_mono [OF d3 m3]
  have m2: "uuidCount ?s1 \<le> uuidCount ?s2" by (rule lowerTasks_mono)
  note d1 = same_draws_mono [OF d2 m2]
  have e1: "lowerStartEvent (StartEvent p) sm nsm (retag f s) = retag f ?s1"
    by (rule lowerStartEvent_retag [OF f])
  have e2: "lowerTasks env' (IntermediateCatchEvent p) CACAO_COMMAND_TYPE_MANUAL v' sm nsm (retag f ?s1) = retag f ?s2"
    by (rule lowerTasks_retag [OF f l v d2])
  have e3: "lowerEndEvents (EndEvent p) sm (retag f ?s2) = retag f ?s3"
    by (rule lowerEndEvents_retag [OF f])
  have e4: "lowerTasks env' (ServiceTask p) CACAO_COMMAND_TYPE_HTTP v' sm nsm (retag f ?s3) = retag f ?s4"
    by (rule lowerTasks_retag [OF f l v d4])
  have e5: "lowerTasks env' (UserTask p) CACAO_COMMAND_TYPE_MANUAL v' sm nsm (retag f ?s4) = retag f ?s5"
    by (rule lowerTasks_retag [OF f l v d5])
  have e6: "lowerTasks env' (ManualTask p) CACAO_COMMAND_TYPE_MANUAL v' sm nsm (retag f ?s5) = retag f ?s6"
    by (rule lowerTasks_retag [OF f l v d6])
  have e7: "lowerTasks env' (ScriptTask p) CACAO_COMMAND_TYPE_BASH v' sm nsm (retag f ?s6) = retag f ?s7"
    by (rule lowerTasks_retag [OF f l v d7])
  have e8: "lowerTasks env' (SendTask p) CACAO_COMMAND_TYPE_BASH v' sm nsm (retag f ?s7) = retag f ?s8"
    by (rule lowerTasks_retag [OF f l v d8])
  have e9: "lowerTasks env' (Task p) CACAO_COMMAND_TYPE_MANUAL v' sm nsm (retag f ?s8) = retag f ?s9"
    by (rule lowerTasks_retag [OF f l v d9])
  have e10: "lowerTasks env' (IntermediateThrowEvent p) CACAO_COMMAND_TYPE_MANUAL v' sm nsm (retag f ?s9) = retag f ?s10"
    by (rule lowerTasks_retag [OF f l v d10])
  have e11: "lowerGateways env' (ExclusiveGateway p) v' False sm nsm (retag f ?s10) = retag f ?s11"
    by (rule lowerGateways_retag [OF f l v d11])
  have e12: "lowerGateways env' (ParallelGateway p) v' True sm nsm (retag f ?s11) = retag f ?s12"
    by (rule lowerGateways_retag [OF f l v d12])
  have e13: "lowerGateways env' (InclusiveGateway p) v' False sm nsm (retag f ?s12) = retag f ?s13"
    by (rule lowerGateways_retag [OF f l v d13])
  show ?thesis
    by (simp only: lowerProcess_def Let_def e1 e2 e3 e4 e5 e6 e7 e8 e9 e10 e11 e12 e13)
qed

lemma mapping_library:
  assumes "same_library env env'"
  shows "mapTasks env' k ts m = mapTasks env k ts m"
    "mapEndEvents env' k es m = mapEndEvents env k es m"
    "mapGateways env' k gs m = mapGateways env k gs m"
    "mapExclusiveGateways env' k1 k2 gs m = mapExclusiveGateways env k1 k2 gs m"
    "mapStartEvent env' k se = mapStartEvent env k se"
    "mapCatchEvents env' k1 k2 ts acc = mapCatchEvents env k1 k2 ts acc"
proof -
  from assms have h: "uuidNewHash env' = uuidNewHash env" by (simp add: same_library_def)
  show "mapTasks env' k ts m = mapTasks env k ts m" by (simp only: mapTasks_def h)
  show "mapEndEvents env' k es m = mapEndEvents env k es m" by (simp only: mapEndEvents_def h)
  show "mapGateways env' k gs m = mapGateways env k gs m" by (simp only: mapGateways_def h)
  show "mapExclusiveGateways env' k1 k2 gs m = mapExclusiveGateways env k1 k2 gs m"
    by (simp only: mapExclusiveGateways_def h)
  show "mapStartEvent env' k se = mapStartEvent env k se" by (simp only: mapStartEvent_def h)
  show "mapCatchEvents env' k1 k2 ts acc = mapCatchEvents env k1 k2 ts acc"
    by (simp only: mapCatchEvents_def h)
qed

lemma buildStepMap_agree:
  assumes l: "same_library env env'" and v: "same_version v v'"
  shows "buildStepMap env' v' p = buildStepMap env v p"
proof -
  from v have "(v' = CACAO_SPEC_VERSION_11) = (v = CACAO_SPEC_VERSION_11)"
    by (simp add: same_version_def)
  then show ?thesis
    by (simp only: buildStepMap_def mapping_library [OF l])
qed

lemma buildNextStepMap_agree:
  assumes "same_library env env'"
  shows "buildNextStepMap env' flows = buildNextStepMap env flows"
proof -
  from assms have "addSequenceFlow env' = addSequenceFlow env"
    by (intro ext) (simp add: addSequenceFlow_def nextStepMapKey_def same_library_def)
  then show ?thesis by (simp add: buildNextStepMap_def)
qed

text \<open>Facts about whole runs.\<close>

lemma envelope_update_SpecVersion: "envelope_update (\<lambda>p. p\<lparr>SpecVersion := v\<rparr>)"
  by (simp add: envelope_update_def)

lemma envelope_update_clock: "envelope_update (\<lambda>p. p\<lparr>Created := c, Modified := m\<rparr>)"
  by (simp add: envelope_update_def)

lemma same_library_refl: "same_library env env"
  by (simp add: same_library_def)

lemma same_draws_refl: "same_draws env env n"
  by (simp add: same_draws_def)

lemma playbook_retag: "playbook (retag f s) = f (playbook s)"
  by (simp add: retag_def)

lemma SpecVersion_setStep [simp]: "SpecVersion (playbook (setStep k st s)) = SpecVersion (playbook s)"
  by (simp add: setStep_def)

lemma ConvertToCacao_run_retag:
  assumes f: "envelope_update f" and l: "same_library env env'" and v: "same_version v v'"
    and r: "ConvertToCacao_run env d v = Inr s"
    and d: "same_draws env env' (uuidCount s)"
    and n: "\<And>p start. newPlaybook env' v' p start = f (newPlaybook env v p start)"
  shows "ConvertToCacao_run env' d v' = Inr (retag f s)"
proof -
  from r have one: "length (Processes d) = 1"
    by (simp add: ConvertToCacao_run_def split: if_splits)
  let ?p = "Processes d ! 0"
  let ?sm = "fst (buildStepMap env v ?p)"
  let ?start = "snd (buildStepMap env v ?p)"
  let ?nsm = "buildNextStepMap env (SequenceFlow ?p)"
  let ?s0 = "\<lparr>playbook = newPlaybook env v ?p ?start, uuidCount = 0\<rparr>"
  from r one have s: "s = lowerProcess env v ?p ?sm ?nsm ?s0"
    by (simp add: ConvertToCacao_run_def Let_def case_prod_beta)
  have s0: "\<lparr>playbook = newPlaybook env' v' ?p ?start, uuidCount = 0\<rparr> = retag f ?s0"
    by (simp add: n retag_def)
  from d s have "same_draws env env' (uuidCount (lowerProcess env v ?p ?sm ?nsm ?s0))" by simp
  from lowerProcess_retag [OF f l v this] one s show ?thesis
    by (simp add: ConvertToCacao_run_def Let_def case_prod_beta buildStepMap_agree [OF l v]
        buildNextStepMap_agree [OF l] s0)
qed

lemma SpecVersion_lowerProcess_run:
  assumes "ConvertToCacao_run env d v = Inr s"
  shows "SpecVersion (playbook s) = v"
proof -
  have f: "envelope_update (\<lambda>p. p\<lparr>SpecVersion := v\<rparr>)" by (rule envelope_update_SpecVersion)
  have "ConvertToCacao_run env d v = Inr (retag (\<lambda>p. p\<lparr>SpecVersion := v\<rparr>) s)"
    by (rule ConvertToCacao_run_retag [OF f same_library_refl _ assms same_draws_refl])
       (simp_all add: same_version_def newPlaybook_def)
  with assms have "s = retag (\<lambda>p. p\<lparr>SpecVersion := v\<rparr>) s" by simp
  then have "SpecVersion (playbook s) = SpecVersion (playbook (retag (\<lambda>p. p\<lparr>SpecVersion := v\<rparr>) s))"
    by simp
  then show ?thesis by (simp add: retag_def)
qed

section \<open>The probing loop and the workflow writes\<close>

lemma showNat_0: "showNat 0 = ''0''"
  by (simp add: showNat_small digit_char_def)

lemma showNat_1: "showNat (Suc 0) = ''1''"
  by (simp add: showNat_small digit_char_def)

lemma probe_hit: "map_of m (sprintf_d src i) = None \<Longrightarrow> probe m src i = sprintf_d src i"
  by (subst probe.simps) simp

lemma probe_miss: "map_of m (sprintf_d src i) \<noteq> None \<Longrightarrow> probe m src i = probe m src (Suc i)"
  by (subst probe.simps) auto

lemma probe_result_here: "map_of m (sprintf_d src i) = None \<Longrightarrow> probe_result m src i i"
  by (auto simp: probe_result_def)

lemma probe_result_next:
  assumes miss: "map_of m (sprintf_d src i) \<noteq> None" and r: "probe_result m src (Suc i) k"
  shows "probe_result m src i k"
  unfolding probe_result_def
proof (intro conjI allI impI)
  from r show "i \<le> k" by (simp add: probe_result_def)
  from r show "map_of m (sprintf_d src k) = None" by (simp add: probe_result_def)
  fix j assume j: "i \<le> j \<and> j < k"
  show "map_of m (sprintf_d src j) \<noteq> None"
  proof (cases "j = i")
    case True
    with miss show ?thesis by simp
  next
    case False
    with j have "Suc i \<le> j \<and> j < k" by simp
    with r show ?thesis unfolding probe_result_def by blast
  qed
qed

lemma probe_least: "\<exists>k. probe m src i = sprintf_d src k \<and> probe_result m src i k"
proof (induction m src i rule: probe.induct)
  case (1 m src i)
  show ?case
  proof (cases "map_of m (sprintf_d src i) = None")
    case True
    from probe_hit [OF True] probe_result_here [OF True] show ?thesis by blast
  next
    case False
    from "1.IH" [OF False] obtain k where k: "probe m src (Suc i) = sprintf_d src k"
      and r: "probe_result m src (Suc i) k" by blast
    from probe_miss [OF False] k have "probe m src i = sprintf_d src k" by simp
    with probe_result_next [OF False r] show ?thesis by blast
  qed
qed

lemma buildNextStepMap_snoc:
  "buildNextStepMap env (flows @ [f]) = addSequenceFlow env (buildNextStepMap env flows) f"
  by (simp add: buildNextStepMap_def)

lemma sprintf_id_eq [simp]: "sprintf_id k u = sprintf_id k u' \<longleftrightarrow> u = u'"
  by (simp add: sprintf_id_def)

lemma sprintf_id_nonempty [simp]: "sprintf_id k u \<noteq> []"
  by (simp add: sprintf_id_def)

lemma Workflow_setStep:
  "Workflow (playbook (setStep k st s)) = (Workflow (playbook s))(k \<mapsto> st)"
  by (simp add: setStep_def)

lemma Workflow_declareCondition [simp]:
  "Workflow (playbook (declareCondition env g s)) = Workflow (playbook s)"
  by (simp add: declareCondition_def)

lemma Workflow_orNewEndStep:
  "Workflow (playbook (snd (orNewEndStep env t x s))) =
     (if x = [] then (Workflow (playbook s))(sprintf_id t (uuidNew env (uuidCount s)) \<mapsto> endStep)
      else Workflow (playbook s))"
  by (simp add: orNewEndStep_def newEndStep_def Let_def setStep_def)

section \<open>Evaluating the conversion\<close>

text \<open>The definitions a concrete run unfolds. The category iterations are unfolded
  node by node, by their \<open>Nil\<close> and \<open>Cons\<close> equations.\<close>

lemmas conv_defs = ConvertToCacao_def ConvertToCacao_run_def buildStepMap_def Let_def
  mapStartEvent_def mapCatchEvents_def mapEndEvents_def mapTasks_def mapGateways_def
  mapExclusiveGateways_def buildNextStepMap_def lowerProcess_def lowerStartEvent_def
  ProcessTask_def ProcessGateway_def
  orNewEndStep_def newEndStep_def setStep_def newPlaybook_def zeroPlaybook_def sprintf_id_def
  sprintf_d_def sprintf_s_def lookupS_def endStep_def zeroStep_def declareCondition_def
  conditionOf_def gatewayNameOf_def addSequenceFlow_def nextStepMapKey_def

lemmas zero_defs = zeroDefinitions_def zeroProcess_def zeroTask_def zeroGateway_def
  zeroEndEvent_def zeroFlow_def zeroStartEvent_def mkFlow_def

section \<open>The claims\<close>

text \<open>
  Claim C1 says that the declared start id is a key of the workflow and that the step
  under it has the start type, also when there is no start event and the first
  intermediate catch event is promoted. The code does this under 1.1 only. Under 2.0 the
  promoted event gives \<open>workflow_start\<close> the prefix \<open>start\<close>, while \<open>ProcessTask\<close> derives
  the step's id with the prefix \<open>action\<close>: its test \<open>WorkflowStart == stepId\<close> never
  holds, the step is stored as an action, and the declared start id is no key of the
  workflow. Evaluated on a process whose only node is an intermediate catch event, for
  any name-based and random UUIDs.
\<close>

theorem promoted_start_not_in_workflow:
  "(case ConvertToCacao env catchOnly CACAO_SPEC_VERSION_20 of
      Inl err \<Rightarrow> False
    | Inr p \<Rightarrow>
        WorkflowStart p = ''start--'' @ uuidNewHash env ''Event_1'' \<and>
        Workflow p (WorkflowStart p) = None \<and>
        dom (Workflow p) = {''action--'' @ uuidNewHash env ''Event_1'', ''end--'' @ uuidNew env 0} \<and>
        map_option step_Type (Workflow p (''action--'' @ uuidNewHash env ''Event_1''))
          = Some CACAO_STEP_TYPE_ACTION) \<and>
   (case ConvertToCacao env catchOnly CACAO_SPEC_VERSION_11 of
      Inl err \<Rightarrow> False
    | Inr p \<Rightarrow>
        WorkflowStart p = ''step--'' @ uuidNewHash env ''Event_1'' \<and>
        map_option step_Type (Workflow p (WorkflowStart p)) = Some CACAO_STEP_TYPE_START)"
  by (simp add: conv_defs zero_defs catchOnly_def)

text \<open>
  Claim C2, as stated: two runs of \<open>ConvertToCacao\<close> on the same input give identical
  output. It fails: the playbook carries the reading of the clock, and the id of a
  synthesized End step is a random UUID. A document with a start event only: two runs
  that differ in nothing but the clock return different playbooks. A document with one
  intermediate catch event and no flow: two runs that differ in nothing but the random
  UUIDs return different sets of step ids.
\<close>

theorem ConvertToCacao_runs_differ:
  "ConvertToCacao exampleEnv startOnly CACAO_SPEC_VERSION_20
     \<noteq> ConvertToCacao laterClockEnv startOnly CACAO_SPEC_VERSION_20 \<and>
   stepIds (ConvertToCacao exampleEnv catchOnly CACAO_SPEC_VERSION_20)
     \<noteq> stepIds (ConvertToCacao otherDrawsEnv catchOnly CACAO_SPEC_VERSION_20)"
proof
  have "Created (projr (ConvertToCacao exampleEnv startOnly CACAO_SPEC_VERSION_20)) = Some 0"
    by (simp add: conv_defs zero_defs startOnly_def exampleEnv_def)
  moreover have "Created (projr (ConvertToCacao laterClockEnv startOnly CACAO_SPEC_VERSION_20)) = Some 1"
    by (simp add: conv_defs zero_defs startOnly_def exampleEnv_def laterClockEnv_def)
  ultimately show "ConvertToCacao exampleEnv startOnly CACAO_SPEC_VERSION_20
     \<noteq> ConvertToCacao laterClockEnv startOnly CACAO_SPEC_VERSION_20"
    by auto
next
  have a: "stepIds (ConvertToCacao exampleEnv catchOnly CACAO_SPEC_VERSION_20)
          = {''action--5-Event_1'', ''end--4-0''}"
    by (simp add: stepIds_def conv_defs zero_defs catchOnly_def exampleEnv_def showNat_0)
  have b: "stepIds (ConvertToCacao otherDrawsEnv catchOnly CACAO_SPEC_VERSION_20)
          = {''action--5-Event_1'', ''end--4-b0''}"
    by (simp add: stepIds_def conv_defs zero_defs catchOnly_def exampleEnv_def otherDrawsEnv_def showNat_0)
  show "stepIds (ConvertToCacao exampleEnv catchOnly CACAO_SPEC_VERSION_20)
     \<noteq> stepIds (ConvertToCacao otherDrawsEnv catchOnly CACAO_SPEC_VERSION_20)"
    unfolding a b by (simp add: doubleton_eq_iff)
qed

text \<open>
  Claim C2, amended. The ids derived from source nodes are functions of the node id and
  the kind, and a second run on the same input and version returns the same playbook but
  for \<open>created\<close> and \<open>modified\<close>, which hold its own clock reading, whenever the random
  UUIDs it draws for synthesized End steps are those of the first run; in particular
  whenever no End step is synthesized. (Both runs range over the transition index in the
  same order: the environment of the second differs in \<open>uuidNew\<close> and \<open>timeNow\<close> only.)
\<close>

theorem ConvertToCacao_same_draws_same_playbook:
  assumes "\<forall>i. i < drawn env d v \<longrightarrow> r i = uuidNew env i"
  shows "ConvertToCacao (env\<lparr>uuidNew := r, timeNow := t\<rparr>) d v
           = map_sum id (restamp t) (ConvertToCacao env d v)"
proof (cases "ConvertToCacao_run env d v")
  case (Inl err)
  then show ?thesis
    by (simp add: ConvertToCacao_def ConvertToCacao_run_def Let_def case_prod_beta
        split: if_splits)
next
  case (Inr s)
  let ?env = "env\<lparr>uuidNew := r, timeNow := t\<rparr>"
  have f: "envelope_update (restamp t)"
    unfolding restamp_def by (rule envelope_update_clock)
  have l: "same_library env ?env" by (simp add: same_library_def)
  have v: "same_version v v" by (simp add: same_version_def)
  from assms Inr have d: "same_draws env ?env (uuidCount s)"
    by (simp add: same_draws_def drawn_def)
  have "ConvertToCacao_run ?env d v = Inr (retag (restamp t) s)"
    by (rule ConvertToCacao_run_retag [OF f l v Inr d]) (simp add: newPlaybook_def restamp_def)
  with Inr show ?thesis by (simp add: ConvertToCacao_def retag_def)
qed

theorem ConvertToCacao_same_draws_same_playbook_witness:
  "drawn exampleEnv catchOnly CACAO_SPEC_VERSION_20 = 1 \<and>
   uuidNew sameFirstDrawEnv 0 = uuidNew exampleEnv 0 \<and>
   uuidNew sameFirstDrawEnv 1 \<noteq> uuidNew exampleEnv 1 \<and>
   ConvertToCacao sameFirstDrawEnv catchOnly CACAO_SPEC_VERSION_20
     = map_sum id (restamp 7) (ConvertToCacao exampleEnv catchOnly CACAO_SPEC_VERSION_20)"
proof -
  have n: "drawn exampleEnv catchOnly CACAO_SPEC_VERSION_20 = 1"
    by (simp add: drawn_def conv_defs zero_defs catchOnly_def exampleEnv_def)
  have e: "sameFirstDrawEnv = exampleEnv\<lparr>uuidNew := uuidNew sameFirstDrawEnv, timeNow := 7\<rparr>"
    by (simp add: sameFirstDrawEnv_def)
  have u0: "uuidNew sameFirstDrawEnv 0 = uuidNew exampleEnv 0"
    by (simp add: sameFirstDrawEnv_def exampleEnv_def showNat_0)
  have u1: "uuidNew sameFirstDrawEnv 1 \<noteq> uuidNew exampleEnv 1"
    by (simp add: sameFirstDrawEnv_def exampleEnv_def showNat_small digit_char_def)
  have "\<forall>i. i < drawn exampleEnv catchOnly CACAO_SPEC_VERSION_20
          \<longrightarrow> uuidNew sameFirstDrawEnv i = uuidNew exampleEnv i"
    using n u0 by simp
  from ConvertToCacao_same_draws_same_playbook [OF this, of 7] e n u0 u1
  show ?thesis by simp
qed

text \<open>
  Claim C3 says that every successor a step names is a key of the workflow. Evaluated on
  two inputs on which the code leaves a successor that is none. For the parallel gateway
  with a flow to a node the parser does not read, the parallel step's \<open>next_steps\<close> holds
  the empty string for that flow (the task and if-condition paths store an End step
  instead), and the empty string is no key. The inclusive gateway is classified under the
  prefix \<open>parallel\<close> but lowered as a condition under the prefix \<open>if-condition\<close>, so under
  2.0 the start step's \<open>on_completion\<close> names an id that is no key.
\<close>

theorem successor_not_in_workflow:
  "(case ConvertToCacao env parallelDangling CACAO_SPEC_VERSION_20 of
      Inl err \<Rightarrow> False
    | Inr p \<Rightarrow>
        map_option NextSteps (Workflow p (''parallel--'' @ uuidNewHash env ''Gateway_1''))
          = Some [''action--'' @ uuidNewHash env ''Activity_1'', []] \<and>
        Workflow p [] = None) \<and>
   (case ConvertToCacao env inclusiveTarget CACAO_SPEC_VERSION_20 of
      Inl err \<Rightarrow> False
    | Inr p \<Rightarrow>
        map_option OnCompletion (Workflow p (''start--'' @ uuidNewHash env ''StartEvent_1''))
          = Some (''parallel--'' @ uuidNewHash env ''Gateway_1'') \<and>
        Workflow p (''parallel--'' @ uuidNewHash env ''Gateway_1'') = None \<and>
        map_option step_Type (Workflow p (''if-condition--'' @ uuidNewHash env ''Gateway_1''))
          = Some CACAO_STEP_TYPE_IF_COND)"
  by (simp add: conv_defs zero_defs parallelDangling_def inclusiveTarget_def probe.simps
      showNat_0 showNat_1)

text \<open>
  Claim C4. For a gateway with exactly two outgoing flows that is lowered conditionally,
  \<open>ProcessGateway\<close> stores exactly one if-condition step, under the gateway's derived id.
  Its \<open>on_true\<close> is the step id found through the discriminator \<open>YES\<close> and its \<open>on_false\<close>
  the one found through \<open>NO\<close>; a branch that is not found gets a fresh random id of its
  own, under which an End step is stored. So both branches are non-empty, and the
  workflow changes at the if-condition step and the synthesized End steps only. (Under
  1.1 every id carries the prefix \<open>step\<close>; a random UUID is never the gateway's
  name-based UUID.)
\<close>

theorem ProcessGateway_binary_shape:
  assumes two: "length (gw_Outgoing gateway) = 2"
    and fresh: "specVersion = CACAO_SPEC_VERSION_11 \<longrightarrow>
                  uuidNew env (uuidCount s) \<noteq> uuidNewHash env (gw_Id gateway) \<and>
                  uuidNew env (Suc (uuidCount s)) \<noteq> uuidNewHash env (gw_Id gateway)"
  shows
    "(let s' = ProcessGateway env gateway specVersion False stepMap nextStepMap s;
          stepId = sprintf_id (if specVersion = CACAO_SPEC_VERSION_11
                               then CACAO_STEP_TYPE_11_STEP else CACAO_STEP_TYPE_IF_COND)
                     (uuidNewHash env (gw_Id gateway));
          endStepType = (if specVersion = CACAO_SPEC_VERSION_11
                         then CACAO_STEP_TYPE_11_STEP else CACAO_STEP_TYPE_END);
          yes = lookupS stepMap (lookupS (map_of nextStepMap) (sprintf_s (gw_Id gateway) ''YES''));
          no = lookupS stepMap (lookupS (map_of nextStepMap) (sprintf_s (gw_Id gateway) ''NO''));
          endTrue = sprintf_id endStepType (uuidNew env (uuidCount s));
          endFalse = sprintf_id endStepType
                       (uuidNew env (if yes = [] then Suc (uuidCount s) else uuidCount s));
          onTrue = (if yes = [] then endTrue else yes);
          onFalse = (if no = [] then endFalse else no)
      in Workflow (playbook s') stepId =
           Some (zeroStep\<lparr>step_Type := CACAO_STEP_TYPE_IF_COND,
                   Condition := conditionOf env gateway @ '' == 1'',
                   InArgs := [conditionOf env gateway], step_Name := gatewayNameOf gateway,
                   OnTrue := onTrue, OnFalse := onFalse\<rparr>) \<and>
         onTrue \<noteq> [] \<and> onFalse \<noteq> [] \<and>
         (yes = [] \<longrightarrow> Workflow (playbook s') endTrue = Some endStep) \<and>
         (no = [] \<longrightarrow> Workflow (playbook s') endFalse = Some endStep) \<and>
         step_Type endStep = CACAO_STEP_TYPE_END \<and>
         (\<forall>k. k \<noteq> stepId \<and> (yes = [] \<longrightarrow> k \<noteq> endTrue) \<and> (no = [] \<longrightarrow> k \<noteq> endFalse) \<longrightarrow>
              Workflow (playbook s') k = Workflow (playbook s) k))"
proof -
  let ?yes = "lookupS stepMap (lookupS (map_of nextStepMap) (sprintf_s (gw_Id gateway) ''YES''))"
  let ?no = "lookupS stepMap (lookupS (map_of nextStepMap) (sprintf_s (gw_Id gateway) ''NO''))"
  have ne: "sprintf_id (endTypeOf specVersion) (uuidNew env (uuidCount s))
              \<noteq> gatewayStepId env specVersion CACAO_STEP_TYPE_IF_COND (gw_Id gateway)"
    "sprintf_id (endTypeOf specVersion) (uuidNew env (Suc (uuidCount s)))
              \<noteq> gatewayStepId env specVersion CACAO_STEP_TYPE_IF_COND (gw_Id gateway)"
    using fresh by (auto simp: endTypeOf_def gatewayStepId_def sprintf_id_def)
  have ty: "step_Type endStep = CACAO_STEP_TYPE_END" by (simp add: endStep_def zeroStep_def)
  consider (tt) "?yes = []" "?no = []" | (tf) "?yes = []" "?no \<noteq> []"
    | (ft) "?yes \<noteq> []" "?no = []" | (ff) "?yes \<noteq> []" "?no \<noteq> []" by blast
  then show ?thesis
  proof cases
    case tt
    with ne ty show ?thesis
      unfolding ProcessGateway_binary [OF two] Let_def
      by (simp add: Workflow_setStep Workflow_orNewEndStep fst_orNewEndStep
          uuidCount_orNewEndStep ifStep_def endTypeOf_def [symmetric]
          gatewayStepId_def [symmetric])
  next
    case tf
    with ne ty show ?thesis
      unfolding ProcessGateway_binary [OF two] Let_def
      by (simp add: Workflow_setStep Workflow_orNewEndStep fst_orNewEndStep
          uuidCount_orNewEndStep ifStep_def endTypeOf_def [symmetric]
          gatewayStepId_def [symmetric])
  next
    case ft
    with ne ty show ?thesis
      unfolding ProcessGateway_binary [OF two] Let_def
      by (simp add: Workflow_setStep Workflow_orNewEndStep fst_orNewEndStep
          uuidCount_orNewEndStep ifStep_def endTypeOf_def [symmetric]
          gatewayStepId_def [symmetric])
  next
    case ff
    with ne ty show ?thesis
      unfolding ProcessGateway_binary [OF two] Let_def
      by (simp add: Workflow_setStep Workflow_orNewEndStep fst_orNewEndStep
          uuidCount_orNewEndStep ifStep_def endTypeOf_def [symmetric]
          gatewayStepId_def [symmetric])
  qed
qed

theorem ProcessGateway_binary_shape_witness:
  "length (gw_Outgoing approvedGateway) = 2 \<and>
   uuidNew exampleEnv (uuidCount emptyState) \<noteq> uuidNewHash exampleEnv (gw_Id approvedGateway) \<and>
   uuidNew exampleEnv (Suc (uuidCount emptyState)) \<noteq> uuidNewHash exampleEnv (gw_Id approvedGateway) \<and>
   map_option OnTrue (Workflow (playbook (ProcessGateway exampleEnv approvedGateway
       CACAO_SPEC_VERSION_11 False [''Task_A'' \<mapsto> ''step--5-Task_A'']
       [(''Gateway_1:YES'', ''Task_A'')] emptyState)) ''step--5-Gateway_1'') = Some ''step--5-Task_A'' \<and>
   map_option OnFalse (Workflow (playbook (ProcessGateway exampleEnv approvedGateway
       CACAO_SPEC_VERSION_11 False [''Task_A'' \<mapsto> ''step--5-Task_A'']
       [(''Gateway_1:YES'', ''Task_A'')] emptyState)) ''step--5-Gateway_1'') = Some ''step--4-0'' \<and>
   Workflow (playbook (ProcessGateway exampleEnv approvedGateway
       CACAO_SPEC_VERSION_11 False [''Task_A'' \<mapsto> ''step--5-Task_A'']
       [(''Gateway_1:YES'', ''Task_A'')] emptyState)) ''step--4-0'' = Some endStep"
proof -
  have two: "length (gw_Outgoing approvedGateway) = 2"
    by (simp add: approvedGateway_def zeroGateway_def)
  have f: "uuidNew exampleEnv (uuidCount emptyState) \<noteq> uuidNewHash exampleEnv (gw_Id approvedGateway)"
    "uuidNew exampleEnv (Suc (uuidCount emptyState)) \<noteq> uuidNewHash exampleEnv (gw_Id approvedGateway)"
    by (simp_all add: exampleEnv_def)
  then have f': "CACAO_SPEC_VERSION_11 = CACAO_SPEC_VERSION_11 \<longrightarrow>
      uuidNew exampleEnv (uuidCount emptyState) \<noteq> uuidNewHash exampleEnv (gw_Id approvedGateway) \<and>
      uuidNew exampleEnv (Suc (uuidCount emptyState)) \<noteq> uuidNewHash exampleEnv (gw_Id approvedGateway)"
    by simp
  from ProcessGateway_binary_shape [OF two f', of "[''Task_A'' \<mapsto> ''step--5-Task_A'']"
      "[(''Gateway_1:YES'', ''Task_A'')]"] two f
  show ?thesis
    by (simp add: Let_def lookupS_def sprintf_s_def sprintf_id_def exampleEnv_def emptyState_def
        approvedGateway_def zeroGateway_def showNat_0)
qed

text \<open>
  Claim C5 says that the case table of a switch step has one entry per discriminator of
  that gateway. The code takes every key of the transition index that starts with the
  gateway's id (\<open>strings.HasPrefix(key, gateway.Id)\<close>, without the colon that the
  following \<open>TrimPrefix\<close> has), so the flows of a node whose id continues the gateway's id
  are taken too. Evaluated: the case table of \<open>Gateway_1\<close>, which has three flows, has five
  entries, two of them the untrimmed keys of \<open>Gateway_10\<close>.
\<close>

theorem switch_cases_of_neighbour:
  "(case ConvertToCacao exampleEnv switchWithNeighbour CACAO_SPEC_VERSION_20 of
      Inl err \<Rightarrow> False
    | Inr p \<Rightarrow>
        map_option (\<lambda>st. dom (Cases st)) (Workflow p ''switch-condition--5-Gateway_1'')
          = Some {''A'', ''B'', ''C'', ''Gateway_10:YES'', ''Gateway_10:NO''})"
  by (simp add: conv_defs zero_defs switchWithNeighbour_def exampleEnv_def asciiUpper_def
      asciiLower_def asciiIdent_def switchCases_def TrimPrefix_def ReplaceAll_space_def)
     auto

text \<open>
  Claim C6, counterexample. The claim says that building the transition index never
  overwrites an entry. An unlabeled flow from \<open>A\<close> takes the key \<open>A:0\<close>; a later flow from
  \<open>A\<close> with the label \<open>0\<close> is stored under \<open>A:0\<close> too and replaces the target. Likewise two
  flows from \<open>G\<close> labeled \<open>Yes\<close> and \<open>yes\<close> share the key \<open>G:YES\<close>, and only the second
  target is kept.
\<close>

theorem transition_index_overwrites:
  "map_of (buildNextStepMap exampleEnv [mkFlow ''A'' [] ''B'']) ''A:0'' = Some ''B'' \<and>
   nextStepMapKey exampleEnv (buildNextStepMap exampleEnv [mkFlow ''A'' [] ''B''])
     (mkFlow ''A'' ''0'' ''C'') = ''A:0'' \<and>
   map_of (buildNextStepMap exampleEnv [mkFlow ''A'' [] ''B'', mkFlow ''A'' ''0'' ''C'']) ''A:0''
     = Some ''C'' \<and>
   buildNextStepMap exampleEnv [mkFlow ''G'' ''Yes'' ''A'', mkFlow ''G'' ''yes'' ''B'']
     = [(''G:YES'', ''B'')]"
  by (simp add: buildNextStepMap_def addSequenceFlow_def nextStepMapKey_def mkFlow_def
      zeroFlow_def exampleEnv_def asciiUpper_def probe.simps sprintf_d_def sprintf_s_def
      showNat_0)

text \<open>
  Claim C6, amended. Adding a flow \<open>f\<close> to the index built from the flows before it
  stores the target of \<open>f\<close> under one key and changes nothing else. For a labeled flow the
  key is the source id, a colon and the upper-cased label, and an entry already under
  that key is replaced. For an unlabeled flow the key is the source id, a colon and the
  smallest \<open>k\<close> for which that key is not in the index yet, so that the insertion
  overwrites nothing: every entry of the index is still there afterwards.
\<close>

theorem transition_index_insertion:
  "(let m = buildNextStepMap env flows; key = nextStepMapKey env m f
    in map_of (buildNextStepMap env (flows @ [f])) = (map_of m)(key \<mapsto> flow_TargetRef f) \<and>
       (flow_Name f \<noteq> [] \<longrightarrow>
          key = sprintf_s (flow_SourceRef f) (strings_ToUpper env (flow_Name f))) \<and>
       (flow_Name f = [] \<longrightarrow>
          (\<exists>k. key = sprintf_d (flow_SourceRef f) k \<and> map_of m key = None \<and>
               (\<forall>j<k. map_of m (sprintf_d (flow_SourceRef f) j) \<noteq> None)) \<and>
          (\<forall>key'. map_of m key' \<noteq> None \<longrightarrow>
               map_of (buildNextStepMap env (flows @ [f])) key' = map_of m key')))"
proof -
  let ?m = "buildNextStepMap env flows"
  let ?key = "nextStepMapKey env ?m f"
  have a: "map_of (buildNextStepMap env (flows @ [f])) = (map_of ?m)(?key \<mapsto> flow_TargetRef f)"
    by (simp add: buildNextStepMap_snoc addSequenceFlow_def update_conv')
  have b: "flow_Name f \<noteq> [] \<longrightarrow>
             ?key = sprintf_s (flow_SourceRef f) (strings_ToUpper env (flow_Name f))"
    by (simp add: nextStepMapKey_def)
  have c: "\<exists>k. ?key = sprintf_d (flow_SourceRef f) k \<and> map_of ?m ?key = None \<and>
               (\<forall>j<k. map_of ?m (sprintf_d (flow_SourceRef f) j) \<noteq> None)"
    if n: "flow_Name f = []"
  proof -
    from probe_least [of ?m "flow_SourceRef f" 0] obtain k where
      k: "probe ?m (flow_SourceRef f) 0 = sprintf_d (flow_SourceRef f) k"
      and r: "probe_result ?m (flow_SourceRef f) 0 k"
      by blast
    from n k have key: "?key = sprintf_d (flow_SourceRef f) k" by (simp add: nextStepMapKey_def)
    from r have "map_of ?m (sprintf_d (flow_SourceRef f) k) = None"
      and "\<forall>j<k. map_of ?m (sprintf_d (flow_SourceRef f) j) \<noteq> None"
      by (simp_all add: probe_result_def)
    with key show ?thesis by (intro exI [of _ k]) (simp only: simp_thms)
  qed
  have d: "\<forall>key'. map_of ?m key' \<noteq> None \<longrightarrow>
               map_of (buildNextStepMap env (flows @ [f])) key' = map_of ?m key'"
    if n: "flow_Name f = []"
  proof -
    from c [OF n] have "map_of ?m ?key = None" by blast
    then show ?thesis unfolding a by auto
  qed
  from a b c d show ?thesis unfolding Let_def by blast
qed

theorem transition_index_insertion_witness:
  "nextStepMapKey exampleEnv
     (buildNextStepMap exampleEnv [mkFlow ''A'' [] ''B'', mkFlow ''A'' ''x'' ''C''])
     (mkFlow ''A'' [] ''D'') = ''A:1'' \<and>
   map_of (buildNextStepMap exampleEnv
       ([mkFlow ''A'' [] ''B'', mkFlow ''A'' ''x'' ''C''] @ [mkFlow ''A'' [] ''D''])) ''A:0''
     = Some ''B'' \<and>
   nextStepMapKey exampleEnv (buildNextStepMap exampleEnv [mkFlow ''A'' [] ''B''])
     (mkFlow ''A'' ''x'' ''C'') = ''A:X''"
proof -
  let ?f1 = "mkFlow ''A'' [] ''B''" and ?f2 = "mkFlow ''A'' ''x'' ''C''"
    and ?f3 = "mkFlow ''A'' [] ''D''"
  have k1: "nextStepMapKey exampleEnv (buildNextStepMap exampleEnv [?f1, ?f2]) ?f3 = ''A:1''"
    by (simp add: buildNextStepMap_def addSequenceFlow_def nextStepMapKey_def mkFlow_def
      zeroFlow_def exampleEnv_def asciiUpper_def probe.simps sprintf_d_def sprintf_s_def
      showNat_small digit_char_def)
  have m0: "map_of (buildNextStepMap exampleEnv [?f1, ?f2]) ''A:0'' \<noteq> None"
    by (simp add: buildNextStepMap_def addSequenceFlow_def nextStepMapKey_def mkFlow_def
      zeroFlow_def exampleEnv_def asciiUpper_def probe.simps sprintf_d_def sprintf_s_def
      showNat_small digit_char_def)
  have m0': "map_of (buildNextStepMap exampleEnv [?f1, ?f2]) ''A:0'' = Some ''B''"
    by (simp add: buildNextStepMap_def addSequenceFlow_def nextStepMapKey_def mkFlow_def
      zeroFlow_def exampleEnv_def asciiUpper_def probe.simps sprintf_d_def sprintf_s_def
      showNat_small digit_char_def)
  have n1: "flow_Name ?f3 = []" and n2: "flow_Name ?f2 \<noteq> []"
    by (simp_all add: mkFlow_def zeroFlow_def)
  have u2: "sprintf_s (flow_SourceRef ?f2) (strings_ToUpper exampleEnv (flow_Name ?f2)) = ''A:X''"
    by (simp add: mkFlow_def zeroFlow_def exampleEnv_def asciiUpper_def sprintf_s_def)
  note t3 = transition_index_insertion [of exampleEnv "[?f1, ?f2]" ?f3, unfolded Let_def]
  note t3' = t3 [THEN conjunct2, THEN conjunct2, THEN mp, OF n1, THEN conjunct2, rule_format,
      OF m0]
  from t3' m0' have a: "map_of (buildNextStepMap exampleEnv ([?f1, ?f2] @ [?f3])) ''A:0'' = Some ''B''"
    by (simp only:)
  note t2 = transition_index_insertion [of exampleEnv "[?f1]" ?f2, unfolded Let_def]
  note t2' = t2 [THEN conjunct2, THEN conjunct1, THEN mp, OF n2]
  from t2' u2 have b: "nextStepMapKey exampleEnv (buildNextStepMap exampleEnv [?f1]) ?f2 = ''A:X''"
    by (simp only:)
  from k1 a b show ?thesis by (intro conjI)
qed

text \<open>
  Claim C7. When the successor of a task-like node cannot be resolved (the lookup of
  the node's key with discriminator 0 in the transition index, then of the result in the
  step-id index, gives the empty string; so for a task with no outgoing flow),
  \<open>ProcessTask\<close> draws a fresh random UUID, stores an End step of type \<open>end\<close> under it,
  and stores the task's step with that id as \<open>on_completion\<close> and one command. Nothing else
  in the workflow changes. The step's type is the action type of the spec version
  (\<open>action\<close>, or \<open>single\<close> under 1.1), or \<open>start\<close> when its id is the declared start. Under
  1.1 both ids carry the prefix \<open>step\<close>, and the two steps are different entries because a
  random UUID is never the name-based UUID of the task.
\<close>

theorem ProcessTask_dangling_successor:
  assumes unresolved:
      "lookupS stepMap (lookupS (map_of nextStepMap) (sprintf_d (task_Id task) 0)) = []"
    and fresh: "specVersion = CACAO_SPEC_VERSION_11 \<longrightarrow>
                  uuidNew env (uuidCount s) \<noteq> uuidNewHash env (task_Id task)"
  shows
    "(let s' = ProcessTask env task commandType specVersion stepMap nextStepMap s;
          stepId = sprintf_id (if specVersion = CACAO_SPEC_VERSION_11
                               then CACAO_STEP_TYPE_11_STEP else CACAO_STEP_TYPE_ACTION)
                     (uuidNewHash env (task_Id task));
          endId = sprintf_id (if specVersion = CACAO_SPEC_VERSION_11
                              then CACAO_STEP_TYPE_11_STEP else CACAO_STEP_TYPE_END)
                    (uuidNew env (uuidCount s))
      in Workflow (playbook s') stepId =
           Some (zeroStep\<lparr>step_Type :=
                     (if WorkflowStart (playbook s) = stepId then CACAO_STEP_TYPE_START
                      else if specVersion = CACAO_SPEC_VERSION_11 then CACAO_STEP_TYPE_11_SINGLE
                      else CACAO_STEP_TYPE_ACTION),
                   step_Name := task_Name task, OnCompletion := endId,
                   Commands := [\<lparr>cmd_Type = commandType, cmd_Command = task_Name task,
                                  cmd_Description = task_Documentation task\<rparr>]\<rparr>) \<and>
         Workflow (playbook s') endId = Some endStep \<and>
         step_Type endStep = CACAO_STEP_TYPE_END \<and>
         uuidCount s' = Suc (uuidCount s) \<and>
         (\<forall>k. k \<noteq> stepId \<and> k \<noteq> endId \<longrightarrow>
              Workflow (playbook s') k = Workflow (playbook s) k))"
proof (cases "specVersion = CACAO_SPEC_VERSION_11")
  case True
  with fresh have "uuidNew env (uuidCount s) \<noteq> uuidNewHash env (task_Id task)" by simp
  with True unresolved show ?thesis
    by (simp add: ProcessTask_alt Let_def taskStepId_def taskStep_def endTypeOf_def
        Workflow_setStep Workflow_orNewEndStep fst_orNewEndStep uuidCount_orNewEndStep
        endStep_def zeroStep_def)
next
  case False
  have "sprintf_id CACAO_STEP_TYPE_END (uuidNew env (uuidCount s))
          \<noteq> sprintf_id CACAO_STEP_TYPE_ACTION (uuidNewHash env (task_Id task))"
    by (simp add: sprintf_id_def)
  with False unresolved show ?thesis
    by (simp add: ProcessTask_alt Let_def taskStepId_def taskStep_def endTypeOf_def
        Workflow_setStep Workflow_orNewEndStep fst_orNewEndStep uuidCount_orNewEndStep
        endStep_def zeroStep_def)
qed

theorem ProcessTask_dangling_successor_witness:
  "lookupS Map.empty (lookupS (map_of []) (sprintf_d (task_Id checkTask) 0)) = [] \<and>
   uuidNew exampleEnv (uuidCount emptyState) \<noteq> uuidNewHash exampleEnv (task_Id checkTask) \<and>
   Workflow (playbook (ProcessTask exampleEnv checkTask CACAO_COMMAND_TYPE_MANUAL
       CACAO_SPEC_VERSION_11 Map.empty [] emptyState)) ''step--4-0'' = Some endStep \<and>
   map_option OnCompletion (Workflow (playbook (ProcessTask exampleEnv checkTask
       CACAO_COMMAND_TYPE_MANUAL CACAO_SPEC_VERSION_11 Map.empty [] emptyState))
       ''step--5-Activity_1'') = Some ''step--4-0''"
proof -
  have u: "lookupS Map.empty (lookupS (map_of []) (sprintf_d (task_Id checkTask) 0)) = []"
    by (simp add: lookupS_def)
  have f: "uuidNew exampleEnv (uuidCount emptyState) \<noteq> uuidNewHash exampleEnv (task_Id checkTask)"
    by (simp add: exampleEnv_def)
  then have f': "CACAO_SPEC_VERSION_11 = CACAO_SPEC_VERSION_11 \<longrightarrow>
      uuidNew exampleEnv (uuidCount emptyState) \<noteq> uuidNewHash exampleEnv (task_Id checkTask)"
    by simp
  have e: "sprintf_id CACAO_STEP_TYPE_11_STEP (uuidNew exampleEnv (uuidCount emptyState)) = ''step--4-0''"
    "sprintf_id CACAO_STEP_TYPE_11_STEP (uuidNewHash exampleEnv (task_Id checkTask)) = ''step--5-Activity_1''"
    by (simp_all add: sprintf_id_def exampleEnv_def emptyState_def checkTask_def zeroTask_def showNat_0)
  from ProcessTask_dangling_successor [OF u f', of CACAO_COMMAND_TYPE_MANUAL] u f
  show ?thesis by (simp add: Let_def e)
qed

text \<open>
  Claim C8. \<open>ConvertToCacao\<close> returns an error exactly when the document does not hold
  exactly one process, and then it returns no playbook; for a document with exactly one
  process it returns a playbook and no error, whatever the process contains. (That it
  returns at all rests on the termination of the probing loop, proved for \<open>probe\<close>.)
\<close>

theorem ConvertToCacao_error_iff_process_count:
  "((\<exists>err. ConvertToCacao env d v = Inl err) \<longleftrightarrow> length (Processes d) \<noteq> 1) \<and>
   ((\<exists>p. ConvertToCacao env d v = Inr p) \<longleftrightarrow> length (Processes d) = 1)"
  by (simp add: ConvertToCacao_def ConvertToCacao_run_def Let_def case_prod_beta)

theorem ConvertToCacao_error_iff_process_count_witness:
  "(\<exists>err. ConvertToCacao exampleEnv twoProcesses CACAO_SPEC_VERSION_20 = Inl err) \<and>
   (\<exists>err. ConvertToCacao exampleEnv zeroDefinitions CACAO_SPEC_VERSION_20 = Inl err) \<and>
   (\<exists>p. ConvertToCacao exampleEnv catchOnly CACAO_SPEC_VERSION_20 = Inr p)"
  using ConvertToCacao_error_iff_process_count [of exampleEnv twoProcesses CACAO_SPEC_VERSION_20]
    ConvertToCacao_error_iff_process_count [of exampleEnv zeroDefinitions CACAO_SPEC_VERSION_20]
    ConvertToCacao_error_iff_process_count [of exampleEnv catchOnly CACAO_SPEC_VERSION_20]
  by (simp add: twoProcesses_def catchOnly_def zeroDefinitions_def)

text \<open>
  Claim C9. \<open>ConvertToCacao\<close> does not validate the version string \<open>v\<close>: every value
  other than "1.1" gives the playbook that "2.0" gives, with \<open>v\<close> in place of "2.0" in
  \<open>spec_version\<close>; and whatever \<open>v\<close> is, the playbook returned carries it unchanged.
\<close>

theorem ConvertToCacao_specVersion_not_validated:
  "(v \<noteq> CACAO_SPEC_VERSION_11 \<longrightarrow>
      ConvertToCacao env d v
        = map_sum id (\<lambda>p. p\<lparr>SpecVersion := v\<rparr>) (ConvertToCacao env d CACAO_SPEC_VERSION_20)) \<and>
   (\<forall>p. ConvertToCacao env d v = Inr p \<longrightarrow> SpecVersion p = v)"
proof (intro conjI impI allI)
  assume v: "v \<noteq> CACAO_SPEC_VERSION_11"
  show "ConvertToCacao env d v
          = map_sum id (\<lambda>p. p\<lparr>SpecVersion := v\<rparr>) (ConvertToCacao env d CACAO_SPEC_VERSION_20)"
  proof (cases "ConvertToCacao_run env d CACAO_SPEC_VERSION_20")
    case (Inl err)
    then show ?thesis
      by (simp add: ConvertToCacao_def ConvertToCacao_run_def Let_def case_prod_beta
          split: if_splits)
  next
    case (Inr s)
    have f: "envelope_update (\<lambda>p. p\<lparr>SpecVersion := v\<rparr>)" by (rule envelope_update_SpecVersion)
    from v have sv: "same_version CACAO_SPEC_VERSION_20 v" by (simp add: same_version_def)
    have "ConvertToCacao_run env d v = Inr (retag (\<lambda>p. p\<lparr>SpecVersion := v\<rparr>) s)"
      by (rule ConvertToCacao_run_retag [OF f same_library_refl sv Inr same_draws_refl])
         (simp add: newPlaybook_def)
    with Inr show ?thesis by (simp add: ConvertToCacao_def retag_def)
  qed
next
  fix p
  assume "ConvertToCacao env d v = Inr p"
  then obtain s where "ConvertToCacao_run env d v = Inr s" and "p = playbook s"
    by (auto simp: ConvertToCacao_def split: sum.splits)
  then show "SpecVersion p = v" by (simp add: SpecVersion_lowerProcess_run)
qed

theorem ConvertToCacao_specVersion_not_validated_witness:
  "ConvertToCacao exampleEnv catchOnly ''3.0''
     = map_sum id (\<lambda>p. p\<lparr>SpecVersion := ''3.0''\<rparr>)
         (ConvertToCacao exampleEnv catchOnly CACAO_SPEC_VERSION_20) \<and>
   (\<exists>p. ConvertToCacao exampleEnv catchOnly ''3.0'' = Inr p \<and> SpecVersion p = ''3.0''
        \<and> Workflow p (''action--5-Event_1'') \<noteq> None)"
proof -
  have a: "ConvertToCacao exampleEnv catchOnly ''3.0''
     = map_sum id (\<lambda>p. p\<lparr>SpecVersion := ''3.0''\<rparr>)
         (ConvertToCacao exampleEnv catchOnly CACAO_SPEC_VERSION_20)"
    using ConvertToCacao_specVersion_not_validated [of "''3.0''" exampleEnv catchOnly] by simp
  have b: "\<exists>p. ConvertToCacao exampleEnv catchOnly CACAO_SPEC_VERSION_20 = Inr p
        \<and> Workflow p (''action--5-Event_1'') \<noteq> None"
    by (simp add: conv_defs zero_defs catchOnly_def exampleEnv_def)
  from a b show ?thesis by auto
qed

end
